theory Spec2Isabelle
  imports Main "HOL-Library.Word" "HOL-Library.Char_ord" "HOL-Library.List_Lexorder"
begin

section \<open>Errors, results and control flow\<close>

text \<open>
  The errors a pass can meet. \<open>NotFound\<close> is the one the controller tests for
  (\<^verbatim>\<open>errors.IsNotFound\<close>); \<open>BadRequest\<close> is what \<^verbatim>\<open>errors.NewBadRequest\<close> builds;
  every other error (an API failure, a \<^verbatim>\<open>fmt.Errorf\<close>) is \<open>OtherError\<close>.
\<close>

datatype error = NotFound | BadRequest string | OtherError string

text \<open>\<^verbatim>\<open>time.Duration\<close> counts nanoseconds.\<close>

type_synonym Duration = int

definition Second :: Duration where
  "Second = 1000000000"

text \<open>\<^verbatim>\<open>reconcile.Result\<close>.\<close>

record Result =
  Requeue :: bool
  RequeueAfter :: Duration

definition emptyResult :: Result where
  "emptyResult = \<lparr>Requeue = False, RequeueAfter = 0\<rparr>"

text \<open>
  How a piece of Go code ends: it falls through with a value (\<open>Done\<close>), it returns
  early (\<open>Exit\<close>: an error for a helper, the pair of result and error for
  \<^verbatim>\<open>Reconcile\<close>), or it panics (\<open>Crash\<close>: a nil pointer dereference, an index out of
  range).
\<close>

datatype ('r, 'a) flow = Done 'a | Exit 'r | Crash

section \<open>Kubernetes objects, as far as the controller reads them\<close>

type_synonym int32 = "32 word"

text \<open>A \<^verbatim>\<open>map[string]string\<close> of labels; its \<^verbatim>\<open>len\<close> is positive iff the list is not empty.\<close>

type_synonym labels = "(string \<times> string) list"

definition labelOf :: "labels \<Rightarrow> string \<Rightarrow> string" where
  "labelOf m k = (case map_of m k of None \<Rightarrow> [] | Some v \<Rightarrow> v)"

record ObjectMeta =
  Name :: string
  Namespace :: string
  Labels :: labels
  UID :: string
  ResourceVersion :: string
  OwnerReferences :: "string list"
  Finalizers :: "string list"
  DeletionTimestamp :: "int option"

definition emptyMeta :: ObjectMeta where
  "emptyMeta = \<lparr>Name = [], Namespace = [], Labels = [], UID = [], ResourceVersion = [],
     OwnerReferences = [], Finalizers = [], DeletionTimestamp = None\<rparr>"

text \<open>\<^verbatim>\<open>DeletionTimestamp.IsZero()\<close>: a nil pointer or the zero time.\<close>

definition IsZero :: "int option \<Rightarrow> bool" where
  "IsZero t = (case t of None \<Rightarrow> True | Some v \<Rightarrow> v = 0)"

record Container =
  Image :: string

record ContainerStatus =
  containerName :: string
  Started :: "bool option"

record PodCondition =
  condType :: string
  condStatus :: string

text \<open>The constants \<^verbatim>\<open>corev1.PodReady\<close> and \<^verbatim>\<open>corev1.ConditionTrue\<close> of the Kubernetes API.\<close>

definition PodReady :: string where
  "PodReady = ''Ready''"

definition ConditionTrue :: string where
  "ConditionTrue = ''True''"

record Pod = ObjectMeta +
  NodeName :: string
  Containers :: "Container list"
  Volumes :: "string list"
  ContainerStatuses :: "ContainerStatus list"
  Conditions :: "PodCondition list"

record StatefulSetStatus =
  stsReplicas :: int32
  stsReadyReplicas :: int32
  stsUpdateRevision :: string

text \<open>The zero value of \<^verbatim>\<open>appsv1.StatefulSetStatus\<close> (\<^verbatim>\<open>var statefulSetStatus\<close>).\<close>

definition zeroStatefulSetStatus :: StatefulSetStatus where
  "zeroStatefulSetStatus = \<lparr>stsReplicas = 0, stsReadyReplicas = 0, stsUpdateRevision = []\<rparr>"

section \<open>The SolrCloud object\<close>

record ZookeeperConnectionInfo =
  InternalConnectionString :: string
  ExternalConnectionString :: "string option"
  ChRoot :: string

record SolrNodeStatus =
  nsName :: string
  nsNodeName :: string
  nsInternalAddress :: string
  nsExternalAddress :: string
  nsReady :: bool
  nsVersion :: string
  nsSpecUpToDate :: bool

text \<open>
  \<^verbatim>\<open>solr.SolrCloudStatus\<close>. \<open>SolrNodes\<close> is a slice: \<open>None\<close> is the nil slice, which
  \<^verbatim>\<open>reflect.DeepEqual\<close> tells apart from an empty one.
\<close>

record SolrCloudStatus =
  SolrNodes :: "SolrNodeStatus list option"
  Replicas :: int32
  UpToDateNodes :: int32
  ReadyReplicas :: int32
  Version :: string
  TargetVersion :: string
  InternalCommonAddress :: string
  ExternalCommonAddress :: "string option"
  ZookeeperConnectionInfo :: ZookeeperConnectionInfo
  BackupRestoreReady :: bool
  UrlSchemeClusterProperty :: bool

text \<open>The zero value \<^verbatim>\<open>solr.SolrCloudStatus{}\<close>.\<close>

definition zeroStatus :: SolrCloudStatus where
  "zeroStatus = \<lparr>SolrNodes = None, Replicas = 0, UpToDateNodes = 0, ReadyReplicas = 0,
     Version = [], TargetVersion = [], InternalCommonAddress = [], ExternalCommonAddress = None,
     ZookeeperConnectionInfo = \<lparr>InternalConnectionString = [], ExternalConnectionString = None,
       ChRoot = []\<rparr>,
     BackupRestoreReady = False, UrlSchemeClusterProperty = False\<rparr>"

record ZookeeperSpec =
  zkChRoot :: string
  zkOptions :: string

record ZookeeperRef =
  ConnectionInfo :: "ZookeeperConnectionInfo option"
  ProvidedZookeeper :: "ZookeeperSpec option"

datatype ExternalMethod = IngressMethod | ExternalDNSMethod

record ExternalAddressability =
  Method :: ExternalMethod
  UseExternalAddress :: bool
  HideNodes :: bool
  HideCommon :: bool
  DomainName :: string

record SecretKeySelector =
  selName :: string
  selKey :: string

record CreateCertificate =
  certName :: string
  IssuerRef :: "string option"

record SolrTLSOptions =
  AutoCreate :: "CreateCertificate option"
  PKCS12Secret :: SecretKeySelector
  RestartOnTLSSecretUpdate :: bool
  TLSSecretVersion :: string

datatype VolumeReclaimPolicy = VolumeReclaimPolicyDelete | VolumeReclaimPolicyRetain

datatype UpdateMethod = ManagedUpdate | StatefulSetUpdate

text \<open>
  The fields of \<^verbatim>\<open>solr.SolrCloudSpec\<close> that the controller reads. A Go pointer is an
  \<open>option\<close>: \<open>SpecReplicas\<close> is \<^verbatim>\<open>Spec.Replicas\<close>, \<open>External\<close> is
  \<^verbatim>\<open>Spec.SolrAddressability.External\<close>, \<open>ConfigMapOptions\<close> holds the
  \<^verbatim>\<open>ProvidedConfigMap\<close> name of \<^verbatim>\<open>Spec.CustomSolrKubeOptions.ConfigMapOptions\<close>,
  \<open>PersistentStorage\<close> the reclaim policy of \<^verbatim>\<open>Spec.StorageOptions.PersistentStorage\<close>.
\<close>

record SolrCloudSpec =
  SpecReplicas :: "int32 option"
  ZookeeperRef :: ZookeeperRef
  SolrImageTag :: string
  External :: "ExternalAddressability option"
  ConfigMapOptions :: "string option"
  SolrTLS :: "SolrTLSOptions option"
  PersistentStorage :: "VolumeReclaimPolicy option"
  BackupRestoreOptions :: "string option"
  UpdateStrategyMethod :: UpdateMethod

record SolrCloud = ObjectMeta +
  Spec :: SolrCloudSpec
  Status :: SolrCloudStatus

section \<open>Collaborators outside the controller\<close>

text \<open>
  The methods of the \<^verbatim>\<open>api/v1beta1\<close> package that the controller calls on a SolrCloud
  and on its status. Their code is not part of the controller file; they are pure, and
  every definition below takes them as a parameter.
\<close>

record SolrCloudMethods =
  WithDefaults :: "string \<Rightarrow> SolrCloud \<Rightarrow> bool \<times> SolrCloud"
  GetAllSolrNodeNames :: "SolrCloud \<Rightarrow> string list"
  UsesIndividualNodeServices :: "SolrCloud \<Rightarrow> bool"
  UsesHeadlessService :: "SolrCloud \<Rightarrow> bool"
  AdvertisedNodeHost :: "SolrCloud \<Rightarrow> string \<Rightarrow> string"
  ConfigMapName :: "SolrCloud \<Rightarrow> string"
  StatefulSetName :: "SolrCloud \<Rightarrow> string"
  SharedLabels :: "SolrCloud \<Rightarrow> labels"
  InternalNodeUrl :: "SolrCloud \<Rightarrow> string \<Rightarrow> bool \<Rightarrow> string"
  ExternalNodeUrl :: "SolrCloud \<Rightarrow> string \<Rightarrow> string \<Rightarrow> bool \<Rightarrow> string"
  InternalCommonUrl :: "SolrCloud \<Rightarrow> bool \<Rightarrow> string"
  ExternalCommonUrl :: "SolrCloud \<Rightarrow> string \<Rightarrow> bool \<Rightarrow> string"
  ImageVersion :: "string \<Rightarrow> string"
  ZkConnectionString :: "SolrCloudStatus \<Rightarrow> string"
  SolrTechnologyLabel :: string

text \<open>
  The string constants of \<^verbatim>\<open>controllers/util\<close> that the controller compares against,
  and three functions from outside the controller file:
  \<^item> \<open>pvcOrdinal\<close>, the ordinal index of a claim, read off its name;
  \<^item> \<open>controllerReference\<close>, the owner references that controller-runtime's
    \<^verbatim>\<open>SetControllerReference\<close> gives an object with the given metadata, or its error;
  \<^item> \<open>md5hex\<close>, \<^verbatim>\<open>fmt.Sprintf("%x", md5.Sum(...))\<close>.
\<close>

record UtilConstants =
  BackupRestoreVolume :: string
  SolrNodeContainer :: string
  SolrStorageFinalizer :: string
  pvcOrdinal :: "string \<Rightarrow> int"
  controllerReference :: "SolrCloud \<Rightarrow> ObjectMeta \<Rightarrow> error + string list"
  md5hex :: "string \<Rightarrow> string"

text \<open>
  Modelled from the spec: \<^verbatim>\<open>util.ContainsString\<close> and \<^verbatim>\<open>util.RemoveString\<close> are not in
  the controller file. The finalizer token is present iff it is an element of the list, and
  removing it removes every occurrence.
\<close>

definition ContainsString :: "string list \<Rightarrow> string \<Rightarrow> bool" where
  "ContainsString xs s = (s \<in> set xs)"

definition RemoveString :: "string list \<Rightarrow> string \<Rightarrow> string list" where
  "RemoveString xs s = filter (\<lambda>item. item \<noteq> s) xs"

text \<open>
  Modelled from the spec: \<^verbatim>\<open>util.IsPVCOrphan\<close> is not in the controller file. A claim
  is orphaned iff its ordinal index is at least the replica count.
\<close>

definition IsPVCOrphan :: "UtilConstants \<Rightarrow> string \<Rightarrow> int32 \<Rightarrow> bool" where
  "IsPVCOrphan k pvcName replicas = (pvcOrdinal k pvcName \<ge> sint replicas)"

text \<open>
  \<^verbatim>\<open>controllerutil.SetControllerReference\<close> reads the metadata of the owned object and
  changes its owner references only.
\<close>

definition SetControllerReference ::
    "UtilConstants \<Rightarrow> SolrCloud \<Rightarrow> 'a ObjectMeta_scheme \<Rightarrow> error + 'a ObjectMeta_scheme" where
  "SetControllerReference k owner obj =
     (case controllerReference k owner (ObjectMeta.truncate obj) of
        Inl err \<Rightarrow> Inl err
      | Inr refs \<Rightarrow> Inr (obj\<lparr>OwnerReferences := refs\<rparr>))"

section \<open>The API client\<close>

record Service = ObjectMeta +
  ClusterIP :: string
  serviceSpec :: string

text \<open>\<open>Data\<close> is a Go map: \<open>None\<close> is the nil map.\<close>

record ConfigMap = ObjectMeta +
  Data :: "labels option"

record Secret = ObjectMeta +
  secretData :: labels

text \<open>\<open>Selector\<close> is \<^verbatim>\<open>Spec.Selector\<close>, a pointer, with its \<^verbatim>\<open>MatchLabels\<close>.\<close>

record StatefulSet = ObjectMeta +
  Selector :: "labels option"
  statefulSetSpec :: string
  statefulSetStatus :: StatefulSetStatus

text \<open>\<open>createFields\<close> stands for the fields of the Certificate that are set at creation.\<close>

record Certificate = ObjectMeta +
  SecretName :: string
  createFields :: string

record Issuer = ObjectMeta +
  issuerSpec :: string

record ZookeeperCluster = ObjectMeta +
  zkReplicas :: int32
  ExternalClientEndpoint :: string
  clientPort :: int32
  zookeeperSpec :: string

record Ingress = ObjectMeta +
  ingressSpec :: string

record PersistentVolumeClaim = ObjectMeta +
  claimSpec :: string

datatype object =
    ObjSolrCloud SolrCloud
  | ObjService Service
  | ObjConfigMap ConfigMap
  | ObjSecret Secret
  | ObjCertificate Certificate
  | ObjIssuer Issuer
  | ObjZookeeperCluster ZookeeperCluster
  | ObjStatefulSet StatefulSet
  | ObjIngress Ingress
  | ObjPod Pod
  | ObjPVC PersistentVolumeClaim

text \<open>
  The writes a pass sends to the API server, in the order sent. A delete carries its
  precondition on the UID, if any.
\<close>

datatype call =
    CallCreate object
  | CallUpdate object
  | CallStatusUpdate object
  | CallDelete object "string option"

text \<open>
  \<^verbatim>\<open>client.Client\<close> is an interface. Its implementation is a parameter: a record of
  operations on a state of the cluster \<open>'w\<close> that the controller never sees, one
  \<open>api\<close> for each kind of object. Every call may change that state and may fail.
\<close>

record ('w, 'a) api =
  apiGet :: "string \<Rightarrow> string \<Rightarrow> 'w \<Rightarrow> (error + 'a) \<times> 'w"
  apiList :: "string \<Rightarrow> labels \<Rightarrow> 'w \<Rightarrow> (error + 'a list) \<times> 'w"
  apiCreate :: "'a \<Rightarrow> 'w \<Rightarrow> error option \<times> 'w"
  apiUpdate :: "'a \<Rightarrow> 'w \<Rightarrow> error option \<times> 'w"
  apiDelete :: "'a \<Rightarrow> string option \<Rightarrow> 'w \<Rightarrow> error option \<times> 'w"

text \<open>The state a pass threads through: the cluster, and the writes sent so far.\<close>

type_synonym 'w state = "'w \<times> call list"

definition clientGet :: "('w, 'a) api \<Rightarrow> string \<Rightarrow> string \<Rightarrow> 'w state \<Rightarrow> (error + 'a) \<times> 'w state" where
  "clientGet a ns n s = (case apiGet a ns n (fst s) of (r, w) \<Rightarrow> (r, (w, snd s)))"

definition clientList :: "('w, 'a) api \<Rightarrow> string \<Rightarrow> labels \<Rightarrow> 'w state \<Rightarrow> (error + 'a list) \<times> 'w state" where
  "clientList a ns sel s = (case apiList a ns sel (fst s) of (r, w) \<Rightarrow> (r, (w, snd s)))"

definition clientCreate :: "('w, 'a) api \<Rightarrow> ('a \<Rightarrow> object) \<Rightarrow> 'a \<Rightarrow> 'w state \<Rightarrow> error option \<times> 'w state" where
  "clientCreate a wrap x s =
     (case apiCreate a x (fst s) of (e, w) \<Rightarrow> (e, (w, snd s @ [CallCreate (wrap x)])))"

definition clientUpdate :: "('w, 'a) api \<Rightarrow> ('a \<Rightarrow> object) \<Rightarrow> 'a \<Rightarrow> 'w state \<Rightarrow> error option \<times> 'w state" where
  "clientUpdate a wrap x s =
     (case apiUpdate a x (fst s) of (e, w) \<Rightarrow> (e, (w, snd s @ [CallUpdate (wrap x)])))"

definition clientDelete :: "('w, 'a) api \<Rightarrow> ('a \<Rightarrow> object) \<Rightarrow> 'a \<Rightarrow> string option \<Rightarrow> 'w state \<Rightarrow> error option \<times> 'w state" where
  "clientDelete a wrap x pre s =
     (case apiDelete a x pre (fst s) of (e, w) \<Rightarrow> (e, (w, snd s @ [CallDelete (wrap x) pre])))"

text \<open>
  The resource generators and the field-copy helpers of \<^verbatim>\<open>controllers/util\<close>: pure
  functions from outside the controller file. A copy helper takes the desired and the
  live object and returns whether anything changed, with the live object as it leaves it.
\<close>

record Generators =
  GenerateCommonService :: "SolrCloud \<Rightarrow> Service"
  GenerateNodeService :: "SolrCloud \<Rightarrow> string \<Rightarrow> Service"
  GenerateHeadlessService :: "SolrCloud \<Rightarrow> Service"
  GenerateConfigMap :: "SolrCloud \<Rightarrow> ConfigMap"
  GenerateStatefulSet :: "SolrCloud \<Rightarrow> SolrCloudStatus \<Rightarrow> labels \<Rightarrow> string \<Rightarrow> string \<Rightarrow> bool \<Rightarrow> StatefulSet"
  GenerateIngress :: "SolrCloud \<Rightarrow> string list \<Rightarrow> string \<Rightarrow> Ingress"
  GenerateZookeeperCluster :: "SolrCloud \<Rightarrow> ZookeeperSpec \<Rightarrow> ZookeeperCluster"
  GenerateKeystoreSecret :: "SolrCloud \<Rightarrow> Secret"
  GenerateSelfSignedIssuer :: "SolrCloud \<Rightarrow> string \<Rightarrow> Issuer"
  GenerateCertificate :: "SolrCloud \<Rightarrow> Certificate"

record Copiers =
  CopyServiceFields :: "Service \<Rightarrow> Service \<Rightarrow> bool \<times> Service"
  CopyConfigMapFields :: "ConfigMap \<Rightarrow> ConfigMap \<Rightarrow> bool \<times> ConfigMap"
  CopyStatefulSetFields :: "StatefulSet \<Rightarrow> StatefulSet \<Rightarrow> bool \<times> StatefulSet"
  CopyIngressFields :: "Ingress \<Rightarrow> Ingress \<Rightarrow> bool \<times> Ingress"
  CopyZookeeperClusterFields :: "ZookeeperCluster \<Rightarrow> ZookeeperCluster \<Rightarrow> bool \<times> ZookeeperCluster"
  CopyCreateCertificateFields :: "Certificate \<Rightarrow> Certificate \<Rightarrow> bool \<times> Certificate"

text \<open>
  Everything a pass does to the world outside: the Kubernetes client, kind by kind, the
  update of the status subresource, and two operations that talk to Solr and to ZooKeeper.
  \<^item> \<open>DeterminePodsSafeToUpdate\<close> is the safety policy of \<^verbatim>\<open>controllers/util\<close>; it is
    given the cloud, the started out-of-date pods, the total pod count, the ready count, the
    count of available updated pods and the count of out-of-date pods that have not
    started, and answers with the pods to delete and whether to retry later.
  \<^item> \<open>setUrlSchemeClusterProperty\<close> is the method of lines 986 to 1062, which writes one
    ZooKeeper node; it answers with \<^verbatim>\<open>(updated, err)\<close>.
\<close>

record 'w Client =
  solrClouds :: "('w, SolrCloud) api"
  statusUpdate :: "SolrCloud \<Rightarrow> 'w \<Rightarrow> error option \<times> 'w"
  services :: "('w, Service) api"
  configMaps :: "('w, ConfigMap) api"
  secrets :: "('w, Secret) api"
  certificates :: "('w, Certificate) api"
  issuers :: "('w, Issuer) api"
  zookeeperClusters :: "('w, ZookeeperCluster) api"
  statefulSets :: "('w, StatefulSet) api"
  ingresses :: "('w, Ingress) api"
  pods :: "('w, Pod) api"
  persistentVolumeClaims :: "('w, PersistentVolumeClaim) api"
  DeterminePodsSafeToUpdate ::
    "SolrCloud \<Rightarrow> Pod list \<Rightarrow> int \<Rightarrow> int \<Rightarrow> int \<Rightarrow> int \<Rightarrow> 'w \<Rightarrow> (Pod list \<times> bool) \<times> 'w"
  setUrlSchemeClusterProperty :: "SolrCloudStatus \<Rightarrow> 'w \<Rightarrow> (bool \<times> error option) \<times> 'w"

text \<open>The pure collaborators and the two process-wide settings of lines 61 to 70.\<close>

record Config =
  methods :: SolrCloudMethods
  generators :: Generators
  copiers :: Copiers
  constants :: UtilConstants
  useZkCRD :: bool
  IngressBaseUrl :: string

definition clientStatusUpdate :: "'w Client \<Rightarrow> SolrCloud \<Rightarrow> 'w state \<Rightarrow> error option \<times> 'w state" where
  "clientStatusUpdate c x s =
     (case statusUpdate c x (fst s) of
        (e, w) \<Rightarrow> (e, (w, snd s @ [CallStatusUpdate (ObjSolrCloud x)])))"

subsection \<open>Sequencing\<close>

type_synonym ('w, 'r, 'a) prog = "'w state \<Rightarrow> ('r, 'a) flow \<times> 'w state"

text \<open>Run \<open>f\<close>; if it falls through, go on with \<open>g\<close>; an early return or a panic ends both.\<close>

definition andThen :: "('w, 'r, 'a) prog \<Rightarrow> ('a \<Rightarrow> ('w, 'r, 'b) prog) \<Rightarrow> ('w, 'r, 'b) prog" where
  "andThen f g s =
     (case f s of
        (Done a, s') \<Rightarrow> g a s'
      | (Exit r, s') \<Rightarrow> (Exit r, s')
      | (Crash, s') \<Rightarrow> (Crash, s'))"

text \<open>\<^verbatim>\<open>if err != nil { return requeueOrNot, err }\<close> around a helper that returns an error.\<close>

definition returning :: "Result \<Rightarrow> ('w, error, 'a) prog \<Rightarrow> ('w, Result \<times> error option, 'a) prog" where
  "returning requeueOrNot f s =
     (case f s of
        (Done a, s') \<Rightarrow> (Done a, s')
      | (Exit err, s') \<Rightarrow> (Exit (requeueOrNot, Some err), s')
      | (Crash, s') \<Rightarrow> (Crash, s'))"

text \<open>A call that returns only an error: \<^verbatim>\<open>nil\<close> falls through.\<close>

definition errFlow :: "error option \<times> 'w state \<Rightarrow> (error, unit) flow \<times> 'w state" where
  "errFlow r = (case r of (None, s') \<Rightarrow> (Done (), s') | (Some err, s') \<Rightarrow> (Exit err, s'))"

text \<open>The writes a program sends, given those sent before it.\<close>

definition callsOf :: "('r, 'a) flow \<times> 'w state \<Rightarrow> call list" where
  "callsOf r = snd (snd r)"

section \<open>The status aggregator\<close>

text \<open>
  \<^verbatim>\<open>reconcileCloudStatus\<close>, lines 445 to 565. The loop over the listed pods updates the
  local variables below; \<open>newStatus\<close> is the status being built.
\<close>

record StatusLoop =
  otherVersions :: "string list"
  nodeNames :: "string list"
  nodeStatusMap :: "string \<Rightarrow> SolrNodeStatus option"
  backupRestoreReadyPods :: int
  newStatus :: SolrCloudStatus
  outOfDatePods :: "Pod list"
  outOfDatePodsNotStarted :: "Pod list"
  availableUpdatedPodCount :: int

text \<open>The zero value \<^verbatim>\<open>solr.SolrNodeStatus{}\<close>.\<close>

definition zeroNodeStatus :: SolrNodeStatus where
  "zeroNodeStatus = \<lparr>nsName = [], nsNodeName = [], nsInternalAddress = [],
     nsExternalAddress = [], nsReady = False, nsVersion = [], nsSpecUpToDate = False\<rparr>"

text \<open>Lines 489 to 494: the last condition of type PodReady decides.\<close>

definition podReady :: "Pod \<Rightarrow> bool" where
  "podReady p =
     foldl (\<lambda>ready condition.
              if condType condition = PodReady then condStatus condition = ConditionTrue
              else ready)
       False (Conditions p)"

text \<open>Lines 480 to 486: the version of the first container's image, once the pod has
  container statuses. \<^verbatim>\<open>Containers[0]\<close> panics on a pod without containers.\<close>

definition podVersion :: "SolrCloudMethods \<Rightarrow> Pod \<Rightarrow> string option" where
  "podVersion m p =
     (if length (ContainerStatuses p) > 0
      then (case Containers p of [] \<Rightarrow> None | c # _ \<Rightarrow> Some (ImageVersion m (Image c)))
      else Some [])"

text \<open>Lines 517 to 528.\<close>

definition containerNotStarted :: "UtilConstants \<Rightarrow> Pod \<Rightarrow> bool" where
  "containerNotStarted k p =
     (if \<not> podReady p
      then foldl (\<lambda>notStarted containerStatus.
                    if containerName containerStatus = SolrNodeContainer k
                    then (Started containerStatus = None \<or> Started containerStatus = Some False)
                    else notStarted)
             True (ContainerStatuses p)
      else False)"

definition podSpecUpToDate :: "string \<Rightarrow> Pod \<Rightarrow> bool" where
  "podSpecUpToDate updateRevision p =
     (labelOf (Labels p) ''controller-revision-hash'' = updateRevision)"

text \<open>
  One round of the loop of lines 471 to 537, variable by variable; \<open>None\<close> is the
  panic of line 482.
\<close>

definition statusLoopBody ::
    "SolrCloudMethods \<Rightarrow> UtilConstants \<Rightarrow> SolrCloud \<Rightarrow> string \<Rightarrow> Pod \<Rightarrow> StatusLoop \<Rightarrow> StatusLoop option" where
  "statusLoopBody m k solrCloud updateRevision p acc =
     (case podVersion m p of
        None \<Rightarrow> None
      | Some version \<Rightarrow>
          let nodeStatus = \<lparr>
                nsName = Name p,
                nsNodeName = NodeName p,
                nsInternalAddress = ''http://'' @ InternalNodeUrl m solrCloud (Name p) True,
                nsExternalAddress =
                  (case External (Spec solrCloud) of
                     None \<Rightarrow> []
                   | Some ext \<Rightarrow>
                       if \<not> HideNodes ext
                       then ''http://'' @ ExternalNodeUrl m solrCloud (Name p) (DomainName ext) True
                       else []),
                nsReady = podReady p,
                nsVersion = version,
                nsSpecUpToDate = podSpecUpToDate updateRevision p\<rparr>
          in Some \<lparr>
               otherVersions =
                 (if length (ContainerStatuses p) > 0 \<and> version \<noteq> SolrImageTag (Spec solrCloud)
                  then otherVersions acc @ [version] else otherVersions acc),
               nodeNames = nodeNames acc @ [Name p],
               nodeStatusMap = (nodeStatusMap acc)(nsName nodeStatus \<mapsto> nodeStatus),
               backupRestoreReadyPods =
                 (if BackupRestoreOptions (Spec solrCloud) \<noteq> None
                  then backupRestoreReadyPods acc
                    + int (length (filter (\<lambda>volume. volume = BackupRestoreVolume k) (Volumes p)))
                  else backupRestoreReadyPods acc),
               newStatus = (newStatus acc)\<lparr>
                 ReadyReplicas :=
                   (if nsReady nodeStatus then ReadyReplicas (newStatus acc) + 1
                    else ReadyReplicas (newStatus acc)),
                 UpToDateNodes :=
                   (if nsSpecUpToDate nodeStatus then UpToDateNodes (newStatus acc) + 1
                    else UpToDateNodes (newStatus acc))\<rparr>,
               outOfDatePods =
                 (if \<not> nsSpecUpToDate nodeStatus \<and> \<not> containerNotStarted k p
                  then outOfDatePods acc @ [p] else outOfDatePods acc),
               outOfDatePodsNotStarted =
                 (if \<not> nsSpecUpToDate nodeStatus \<and> containerNotStarted k p
                  then outOfDatePodsNotStarted acc @ [p] else outOfDatePodsNotStarted acc),
               availableUpdatedPodCount =
                 (if nsSpecUpToDate nodeStatus \<and> nsReady nodeStatus
                  then availableUpdatedPodCount acc + 1 else availableUpdatedPodCount acc)\<rparr>)"

fun statusLoop ::
    "SolrCloudMethods \<Rightarrow> UtilConstants \<Rightarrow> SolrCloud \<Rightarrow> string \<Rightarrow> Pod list \<Rightarrow> StatusLoop \<Rightarrow> StatusLoop option" where
  "statusLoop m k solrCloud updateRevision [] acc = Some acc"
| "statusLoop m k solrCloud updateRevision (p # ps) acc =
     (case statusLoopBody m k solrCloud updateRevision p acc of
        None \<Rightarrow> None
      | Some acc' \<Rightarrow> statusLoop m k solrCloud updateRevision ps acc')"

text \<open>\<^verbatim>\<open>selectorLabels["technology"] = solr.SolrTechnologyLabel\<close>.\<close>

definition setLabel :: "string \<Rightarrow> string \<Rightarrow> labels \<Rightarrow> labels" where
  "setLabel key v m = (key, v) # filter (\<lambda>kv. fst kv \<noteq> key) m"

text \<open>
  Lines 461 to 564, after the pods are listed. The result is the status, the out-of-date
  pods that have started, those that have not, and the number of up-to-date ready pods.
\<close>

definition aggregateStatus ::
    "SolrCloudMethods \<Rightarrow> UtilConstants \<Rightarrow> SolrCloud \<Rightarrow> SolrCloudStatus \<Rightarrow> StatefulSetStatus \<Rightarrow> Pod list
       \<Rightarrow> (error, SolrCloudStatus \<times> Pod list \<times> Pod list \<times> int) flow" where
  "aggregateStatus m k solrCloud status0 stsStatus foundPods =
     (let updateRevision = stsUpdateRevision stsStatus;
          acc0 = \<lparr>otherVersions = [], nodeNames = [], nodeStatusMap = Map.empty,
                   backupRestoreReadyPods = 0,
                   newStatus = status0\<lparr>Replicas := stsReplicas stsStatus, UpToDateNodes := 0,
                                         ReadyReplicas := 0\<rparr>,
                   outOfDatePods = [], outOfDatePodsNotStarted = [],
                   availableUpdatedPodCount = 0\<rparr>
      in case statusLoop m k solrCloud updateRevision foundPods acc0 of
           None \<Rightarrow> Crash
         | Some acc \<Rightarrow>
             (case SpecReplicas (Spec solrCloud) of
                None \<Rightarrow> Crash
              | Some replicas \<Rightarrow>
                  Done ((newStatus acc)\<lparr>
                          SolrNodes :=
                            Some (map (\<lambda>nodeName. case nodeStatusMap acc nodeName of
                                                    None \<Rightarrow> zeroNodeStatus
                                                  | Some nodeStatus \<Rightarrow> nodeStatus)
                                    (sort (nodeNames acc))),
                          BackupRestoreReady :=
                            (if backupRestoreReadyPods acc = sint replicas \<and> backupRestoreReadyPods acc > 0
                             then True else BackupRestoreReady (newStatus acc)),
                          TargetVersion :=
                            (if length (otherVersions acc) > 0 then SolrImageTag (Spec solrCloud) else []),
                          Version :=
                            (case otherVersions acc of
                               [] \<Rightarrow> SolrImageTag (Spec solrCloud)
                             | v # _ \<Rightarrow> v),
                          InternalCommonAddress := ''http://'' @ InternalCommonUrl m solrCloud True,
                          ExternalCommonAddress :=
                            (case External (Spec solrCloud) of
                               None \<Rightarrow> ExternalCommonAddress (newStatus acc)
                             | Some ext \<Rightarrow>
                                 if \<not> HideCommon ext
                                 then Some (''http://'' @ ExternalCommonUrl m solrCloud (DomainName ext) True)
                                 else ExternalCommonAddress (newStatus acc))\<rparr>,
                        outOfDatePods acc, outOfDatePodsNotStarted acc,
                        availableUpdatedPodCount acc)))"

text \<open>\<^verbatim>\<open>reconcileCloudStatus\<close>: list the pods of the cloud, then aggregate.\<close>

definition podSelector :: "SolrCloudMethods \<Rightarrow> SolrCloud \<Rightarrow> labels" where
  "podSelector m solrCloud = setLabel ''technology'' (SolrTechnologyLabel m) (SharedLabels m solrCloud)"

definition reconcileCloudStatus ::
    "('w, Pod) api \<Rightarrow> SolrCloudMethods \<Rightarrow> UtilConstants \<Rightarrow> SolrCloud \<Rightarrow> SolrCloudStatus \<Rightarrow> StatefulSetStatus
       \<Rightarrow> 'w state \<Rightarrow> (error, SolrCloudStatus \<times> Pod list \<times> Pod list \<times> int) flow \<times> 'w state" where
  "reconcileCloudStatus podApi m k solrCloud status0 stsStatus s =
     (case clientList podApi (Namespace solrCloud) (podSelector m solrCloud) s of
        (Inl err, s') \<Rightarrow> (Exit err, s')
      | (Inr foundPods, s') \<Rightarrow> (aggregateStatus m k solrCloud status0 stsStatus foundPods, s'))"

text \<open>
  What the loop collects in \<open>otherVersions\<close>: in the order of the listed pods, the
  version of each pod that has container statuses, when it differs from the desired tag.
\<close>

definition podImageVersion :: "SolrCloudMethods \<Rightarrow> Pod \<Rightarrow> string" where
  "podImageVersion m p = (case Containers p of [] \<Rightarrow> [] | c # _ \<Rightarrow> ImageVersion m (Image c))"

definition runningOtherVersions :: "SolrCloudMethods \<Rightarrow> string \<Rightarrow> Pod list \<Rightarrow> string list" where
  "runningOtherVersions m tag ps =
     filter (\<lambda>v. v \<noteq> tag) (map (podImageVersion m) (filter (\<lambda>p. ContainerStatuses p \<noteq> []) ps))"

text \<open>The value a piece of code falls through with, if it does.\<close>

definition flowValue :: "('r, 'a) flow \<Rightarrow> 'a option" where
  "flowValue f = (case f of Done v \<Rightarrow> Some v | Exit r \<Rightarrow> None | Crash \<Rightarrow> None)"

section \<open>The storage lifecycle manager\<close>

text \<open>\<^verbatim>\<open>getPVCList\<close>, lines 719 to 730.\<close>

definition getPVCList ::
    "'w Client \<Rightarrow> SolrCloud \<Rightarrow> labels \<Rightarrow> 'w state \<Rightarrow> (error + PersistentVolumeClaim list) \<times> 'w state" where
  "getPVCList c cloud pvcLabelSelector s =
     clientList (persistentVolumeClaims c) (Namespace cloud) pvcLabelSelector s"

text \<open>
  \<^verbatim>\<open>deletePVC\<close>, lines 743 to 755: the delete is sent for a fresh object that carries the
  name and the namespace of the claim only; its error is logged and dropped.
\<close>

definition pvcDelete :: "PersistentVolumeClaim \<Rightarrow> PersistentVolumeClaim" where
  "pvcDelete pvcItem =
     ObjectMeta.extend (emptyMeta\<lparr>Name := Name pvcItem, Namespace := Namespace pvcItem\<rparr>)
       (PersistentVolumeClaim.fields [])"

definition deletePVC :: "'w Client \<Rightarrow> PersistentVolumeClaim \<Rightarrow> 'w state \<Rightarrow> 'w state" where
  "deletePVC c pvcItem s = snd (clientDelete (persistentVolumeClaims c) ObjPVC (pvcDelete pvcItem) None s)"

text \<open>
  \<^verbatim>\<open>cleanupOrphanPVCs\<close>, lines 700 to 717. \<^verbatim>\<open>*cloud.Spec.Replicas\<close> panics on a nil
  pointer.
\<close>

definition cleanupOrphanPVCs ::
    "'w Client \<Rightarrow> UtilConstants \<Rightarrow> SolrCloud \<Rightarrow> labels \<Rightarrow> ('w, error, unit) prog" where
  "cleanupOrphanPVCs c k cloud pvcLabelSelector s =
     (if ReadyReplicas (Status cloud) = Replicas (Status cloud)
      then (case getPVCList c cloud pvcLabelSelector s of
              (Inl err, s') \<Rightarrow> (Exit err, s')
            | (Inr items, s') \<Rightarrow>
                (case SpecReplicas (Spec cloud) of
                   None \<Rightarrow> (Crash, s')
                 | Some replicas \<Rightarrow>
                     if int (length items) > sint replicas
                     then (Done (),
                           foldl (\<lambda>st pvcItem.
                                    if IsPVCOrphan k (Name pvcItem) replicas
                                    then deletePVC c pvcItem st else st)
                             s' items)
                     else (Done (), s')))
      else (Done (), s))"

text \<open>\<^verbatim>\<open>cleanUpAllPVCs\<close>, lines 732 to 741.\<close>

definition cleanUpAllPVCs :: "'w Client \<Rightarrow> SolrCloud \<Rightarrow> labels \<Rightarrow> ('w, error, unit) prog" where
  "cleanUpAllPVCs c cloud pvcLabelSelector s =
     (case getPVCList c cloud pvcLabelSelector s of
        (Inl err, s') \<Rightarrow> (Exit err, s')
      | (Inr items, s') \<Rightarrow> (Done (), foldl (\<lambda>st pvcItem. deletePVC c pvcItem st) s' items))"

text \<open>
  Lines 675 to 678 and 683 to 686: take the finalizer off the list and update the object.
\<close>

definition removeStorageFinalizer :: "'w Client \<Rightarrow> UtilConstants \<Rightarrow> SolrCloud \<Rightarrow> ('w, error, SolrCloud) prog" where
  "removeStorageFinalizer c k cloud s =
     (let cloud' = cloud\<lparr>Finalizers := RemoveString (Finalizers cloud) (SolrStorageFinalizer k)\<rparr>
      in case clientUpdate (solrClouds c) ObjSolrCloud cloud' s of
           (Some err, s') \<Rightarrow> (Exit err, s')
         | (None, s') \<Rightarrow> (Done cloud', s'))"

text \<open>
  \<^verbatim>\<open>reconcileStorageFinalizer\<close>, lines 649 to 689. The cloud is a pointer that the method
  changes in place; the model returns the cloud as the method leaves it.
\<close>

definition reconcileStorageFinalizer ::
    "'w Client \<Rightarrow> UtilConstants \<Rightarrow> SolrCloud \<Rightarrow> labels \<Rightarrow> ('w, error, SolrCloud) prog" where
  "reconcileStorageFinalizer c k cloud pvcLabelSelector s =
     (if PersistentStorage (Spec cloud) = Some VolumeReclaimPolicyDelete
      then (if IsZero (DeletionTimestamp cloud)
            then (if \<not> ContainsString (Finalizers cloud) (SolrStorageFinalizer k)
                  then (let cloud' = cloud\<lparr>Finalizers := Finalizers cloud @ [SolrStorageFinalizer k]\<rparr>
                        in case clientUpdate (solrClouds c) ObjSolrCloud cloud' s of
                             (Some err, s') \<Rightarrow> (Exit err, s')
                           | (None, s') \<Rightarrow>
                               andThen (cleanupOrphanPVCs c k cloud' pvcLabelSelector)
                                 (\<lambda>u st. (Done cloud', st)) s')
                  else andThen (cleanupOrphanPVCs c k cloud pvcLabelSelector)
                         (\<lambda>u st. (Done cloud, st)) s)
            else if ContainsString (Finalizers cloud) (SolrStorageFinalizer k)
                 then andThen (cleanUpAllPVCs c cloud pvcLabelSelector)
                        (\<lambda>u. removeStorageFinalizer c k cloud) s
                 else (Done cloud, s))
      else if ContainsString (Finalizers cloud) (SolrStorageFinalizer k)
           then removeStorageFinalizer c k cloud s
           else (Done cloud, s))"

section \<open>The coordination-ensemble resolver\<close>

text \<open>\<^verbatim>\<open>%d\<close> of \<^verbatim>\<open>fmt.Sprintf\<close>.\<close>

function decimal :: "nat \<Rightarrow> string" where
  "decimal n = (if n < 10 then [char_of (48 + n)] else decimal (n div 10) @ [char_of (48 + n mod 10)])"
  by pat_completeness auto
termination
  by (relation "measure id") auto

definition formatInt :: "int \<Rightarrow> string" where
  "formatInt i = (if i < 0 then CHR ''-'' # decimal (nat (- i)) else decimal (nat i))"

text \<open>\<^verbatim>\<open>strings.Join\<close>.\<close>

fun joinStrings :: "string list \<Rightarrow> string \<Rightarrow> string" where
  "joinStrings [] sep = []"
| "joinStrings [x] sep = x"
| "joinStrings (x # y # ys) sep = x @ sep @ joinStrings (y # ys) sep"

text \<open>
  Lines 625 to 637: the connection info of a managed ensemble that was found.
  \<^verbatim>\<open>make([]string, n)\<close> panics on a negative length.
\<close>

definition providedZkConnectionInfo ::
    "ZookeeperCluster \<Rightarrow> ZookeeperCluster \<Rightarrow> ZookeeperSpec \<Rightarrow> ZookeeperConnectionInfo option" where
  "providedZkConnectionInfo zkCluster foundZkCluster pzk =
     (if sint (zkReplicas zkCluster) < 0 then None
      else Some \<lparr>
        InternalConnectionString =
          joinStrings
            (map (\<lambda>i. Name foundZkCluster @ ''-'' @ decimal i @ ''.'' @ Name foundZkCluster
                        @ ''-headless.'' @ Namespace foundZkCluster @ '':''
                        @ formatInt (sint (clientPort foundZkCluster)))
               [0 ..< nat (sint (zkReplicas zkCluster))])
            '','',
        ExternalConnectionString =
          (if ExternalClientEndpoint foundZkCluster = [] then None
           else Some (ExternalClientEndpoint foundZkCluster)),
        ChRoot = zkChRoot pzk\<rparr>)"

text \<open>
  \<^verbatim>\<open>reconcileZk\<close>, lines 596 to 644. The new status is a pointer that the function
  writes to; the model returns the status as the function leaves it.
\<close>

definition reconcileZk ::
    "'w Client \<Rightarrow> Config \<Rightarrow> SolrCloud \<Rightarrow> SolrCloudStatus \<Rightarrow> ('w, error, SolrCloudStatus) prog" where
  "reconcileZk c cfg instance status0 s =
     (case ConnectionInfo (ZookeeperRef (Spec instance)) of
        Some info \<Rightarrow> (Done (status0\<lparr>ZookeeperConnectionInfo := info\<rparr>), s)
      | None \<Rightarrow>
          (case ProvidedZookeeper (ZookeeperRef (Spec instance)) of
             Some pzk \<Rightarrow>
               if \<not> useZkCRD cfg
               then (Exit (BadRequest ''Cannot create a Zookeeper Cluster, as the Solr Operator is not configured to use the Zookeeper CRD''), s)
               else (case SetControllerReference (constants cfg) instance
                            (GenerateZookeeperCluster (generators cfg) instance pzk) of
                       Inl err \<Rightarrow> (Exit err, s)
                     | Inr zkCluster \<Rightarrow>
                         (case clientGet (zookeeperClusters c) (Namespace zkCluster) (Name zkCluster) s of
                            (Inl err, s') \<Rightarrow>
                              if err = NotFound
                              then andThen (\<lambda>st. errFlow (clientCreate (zookeeperClusters c) ObjZookeeperCluster zkCluster st))
                                     (\<lambda>u st. (Done status0, st)) s'
                              else (Exit err, s')
                          | (Inr foundZkCluster, s') \<Rightarrow>
                              (case CopyZookeeperClusterFields (copiers cfg) zkCluster foundZkCluster of
                                 (changed, foundZkCluster) \<Rightarrow>
                                   (case (if changed
                                          then clientUpdate (zookeeperClusters c) ObjZookeeperCluster foundZkCluster s'
                                          else (None, s')) of
                                      (err, s'') \<Rightarrow>
                                        (case providedZkConnectionInfo zkCluster foundZkCluster pzk of
                                           None \<Rightarrow> (Crash, s'')
                                         | Some info \<Rightarrow>
                                             (case err of
                                                Some e \<Rightarrow> (Exit e, s'')
                                              | None \<Rightarrow> (Done (status0\<lparr>ZookeeperConnectionInfo := info\<rparr>), s'')))))))
           | None \<Rightarrow> (Exit (BadRequest ''No Zookeeper reference information provided.''), s)))"

section \<open>The TLS certificate coordinator\<close>

text \<open>
  \<^verbatim>\<open>isCertificateReady\<close>, lines 920 to 945: the backing secret of the certificate, if the
  lookup finds it; every error of the lookup is logged and gives \<^verbatim>\<open>nil\<close>.
\<close>

definition isCertificateReady :: "'w Client \<Rightarrow> Certificate \<Rightarrow> 'w state \<Rightarrow> Secret option \<times> 'w state" where
  "isCertificateReady c cert s =
     (case clientGet (secrets c) (Namespace cert) (SecretName cert) s of
        (Inl err, s') \<Rightarrow> (None, s')
      | (Inr foundTLSSecret, s') \<Rightarrow> (Some foundTLSSecret, s'))"

text \<open>\<^verbatim>\<open>afterCertificateReady\<close>, lines 948 to 984.\<close>

definition afterCertificateReady ::
    "'w Client \<Rightarrow> Config \<Rightarrow> SolrCloud \<Rightarrow> Certificate \<Rightarrow> Certificate \<Rightarrow> Secret \<Rightarrow> ('w, error, bool) prog" where
  "afterCertificateReady c cfg instance cert foundCert foundTLSSecret s =
     (case CopyCreateCertificateFields (copiers cfg) cert foundCert of
        (changed, foundCert) \<Rightarrow>
          if changed
          then (case clientDelete (secrets c) ObjSecret foundTLSSecret None s of
                  (Some err, s') \<Rightarrow> (Exit err, s')
                | (None, s') \<Rightarrow>
                    (case clientUpdate (certificates c) ObjCertificate foundCert s' of
                       (Some err, s'') \<Rightarrow> (Exit err, s'')
                     | (None, s'') \<Rightarrow> (Done False, s'')))
          else if length (OwnerReferences foundTLSSecret) = 0
               then (case SetControllerReference (constants cfg) instance foundTLSSecret of
                       Inl err \<Rightarrow> (Exit err, s)
                     | Inr foundTLSSecret \<Rightarrow>
                         (case clientUpdate (secrets c) ObjSecret foundTLSSecret s of
                            (Some err, s') \<Rightarrow> (Exit err, s')
                          | (None, s') \<Rightarrow> (Done True, s')))
               else (Done True, s))"

text \<open>Lines 851 to 864: the keystore password secret is created if it is not found.\<close>

definition ensureKeystoreSecret :: "'w Client \<Rightarrow> Config \<Rightarrow> SolrCloud \<Rightarrow> ('w, error, unit) prog" where
  "ensureKeystoreSecret c cfg instance s =
     (let keystoreSecret = GenerateKeystoreSecret (generators cfg) instance
      in case clientGet (secrets c) (Namespace keystoreSecret) (Name keystoreSecret) s of
           (Inl err, s') \<Rightarrow>
             if err = NotFound
             then (case SetControllerReference (constants cfg) instance keystoreSecret of
                     Inl e \<Rightarrow> (Exit e, s')
                   | Inr keystoreSecret \<Rightarrow> errFlow (clientCreate (secrets c) ObjSecret keystoreSecret s'))
             else (Exit err, s')
         | (Inr foundSecret, s') \<Rightarrow> (Done (), s'))"

text \<open>Lines 866 to 885: without an issuer reference, a self-signed issuer is created if
  it is not found.\<close>

definition ensureSelfSignedIssuer ::
    "'w Client \<Rightarrow> Config \<Rightarrow> SolrCloud \<Rightarrow> CreateCertificate \<Rightarrow> ('w, error, unit) prog" where
  "ensureSelfSignedIssuer c cfg instance autoCreate s =
     (if IssuerRef autoCreate = None
      then (let issuerName = Name instance @ ''-selfsigned-issuer''
            in case clientGet (issuers c) (Namespace instance) issuerName s of
                 (Inl err, s') \<Rightarrow>
                   if err = NotFound
                   then (case SetControllerReference (constants cfg) instance
                                (GenerateSelfSignedIssuer (generators cfg) instance issuerName) of
                           Inl e \<Rightarrow> (Exit e, s')
                         | Inr issuer \<Rightarrow> errFlow (clientCreate (issuers c) ObjIssuer issuer s'))
                   else (Exit err, s')
               | (Inr foundIssuer, s') \<Rightarrow> (Done (), s'))
      else (Done (), s))"

text \<open>Lines 887 to 917: create the Certificate, or see whether the one found is ready.\<close>

definition reconcileCertificate :: "'w Client \<Rightarrow> Config \<Rightarrow> SolrCloud \<Rightarrow> ('w, error, bool) prog" where
  "reconcileCertificate c cfg instance s =
     (let cert = GenerateCertificate (generators cfg) instance
      in case clientGet (certificates c) (Namespace cert) (Name cert) s of
           (Inl err, s') \<Rightarrow>
             if err = NotFound
             then (case SetControllerReference (constants cfg) instance cert of
                     Inl e \<Rightarrow> (Exit e, s')
                   | Inr cert \<Rightarrow>
                       andThen (\<lambda>st. errFlow (clientCreate (certificates c) ObjCertificate cert st))
                         (\<lambda>u st. (Done False, st)) s')
             else (Exit err, s')
         | (Inr foundCert, s') \<Rightarrow>
             (case isCertificateReady c foundCert s' of
                (Some foundTLSSecret, s'') \<Rightarrow>
                  afterCertificateReady c cfg instance cert foundCert foundTLSSecret s''
              | (None, s'') \<Rightarrow> (Done False, s'')))"

text \<open>
  \<^verbatim>\<open>reconcileAutoCreateTLS\<close>, lines 831 to 918. It is called where
  \<^verbatim>\<open>Spec.SolrTLS.AutoCreate\<close> is set; dereferencing a nil pointer there would panic.
\<close>

definition reconcileAutoCreateTLS :: "'w Client \<Rightarrow> Config \<Rightarrow> SolrCloud \<Rightarrow> ('w, error, bool) prog" where
  "reconcileAutoCreateTLS c cfg instance s =
     (case SolrTLS (Spec instance) of
        None \<Rightarrow> (Crash, s)
      | Some tls \<Rightarrow>
          (case AutoCreate tls of
             None \<Rightarrow> (Crash, s)
           | Some autoCreate \<Rightarrow>
               (let fullReconcile =
                      andThen (ensureKeystoreSecret c cfg instance)
                        (\<lambda>u. andThen (ensureSelfSignedIssuer c cfg instance autoCreate)
                                (\<lambda>u. reconcileCertificate c cfg instance))
                in case clientGet (certificates c) (Namespace instance) (certName autoCreate) s of
                     (Inl err, s') \<Rightarrow> fullReconcile s'
                   | (Inr foundCert, s') \<Rightarrow>
                       (case isCertificateReady c foundCert s' of
                          (Some foundTLSSecret, s'') \<Rightarrow>
                            afterCertificateReady c cfg instance
                              (GenerateCertificate (generators cfg) instance) foundCert foundTLSSecret s''
                        | (None, s'') \<Rightarrow> fullReconcile s''))))"

section \<open>The resource synchronizer\<close>

text \<open>
  The pattern that \<^verbatim>\<open>Reconcile\<close> repeats for the common service (lines 137 to 148), the
  headless service (182 to 193), the generated ConfigMap (237 to 250), the ingress (419 to
  430) and each node service (577 to 591): look the desired object up; create it if it is
  not found; if it is found, copy the desired fields over and update when the copy changed
  something; return the first error. The result says which branch ran, with the live
  object as the copy left it.
\<close>

datatype 'a synced = Created | Updated 'a | Unchanged 'a

definition createOrUpdate ::
    "('w, 'a ObjectMeta_scheme) api \<Rightarrow> ('a ObjectMeta_scheme \<Rightarrow> object)
       \<Rightarrow> ('a ObjectMeta_scheme \<Rightarrow> 'a ObjectMeta_scheme \<Rightarrow> bool \<times> 'a ObjectMeta_scheme)
       \<Rightarrow> 'a ObjectMeta_scheme \<Rightarrow> ('w, error, 'a ObjectMeta_scheme synced) prog" where
  "createOrUpdate a wrap copyFields desired s =
     (case clientGet a (Namespace desired) (Name desired) s of
        (Inl err, s') \<Rightarrow>
          if err = NotFound
          then andThen (\<lambda>st. errFlow (clientCreate a wrap desired st)) (\<lambda>u st. (Done Created, st)) s'
          else (Exit err, s')
      | (Inr found, s') \<Rightarrow>
          (case copyFields desired found of
             (changed, found) \<Rightarrow>
               if changed
               then andThen (\<lambda>st. errFlow (clientUpdate a wrap found st))
                      (\<lambda>u st. (Done (Updated found), st)) s'
               else (Done (Unchanged found), s')))"

text \<open>Generate, set the owner, synchronize.\<close>

definition ownedThenSynced ::
    "UtilConstants \<Rightarrow> SolrCloud \<Rightarrow> ('w, 'a ObjectMeta_scheme) api \<Rightarrow> ('a ObjectMeta_scheme \<Rightarrow> object)
       \<Rightarrow> ('a ObjectMeta_scheme \<Rightarrow> 'a ObjectMeta_scheme \<Rightarrow> bool \<times> 'a ObjectMeta_scheme)
       \<Rightarrow> 'a ObjectMeta_scheme \<Rightarrow> ('w, error, 'a ObjectMeta_scheme \<times> 'a ObjectMeta_scheme synced) prog" where
  "ownedThenSynced k instance a wrap copyFields generated s =
     (case SetControllerReference k instance generated of
        Inl err \<Rightarrow> (Exit err, s)
      | Inr desired \<Rightarrow>
          andThen (createOrUpdate a wrap copyFields desired) (\<lambda>r st. (Done (desired, r), st)) s)"

section \<open>The reconciliation orchestrator\<close>

text \<open>\<^verbatim>\<open>strings.Contains\<close>.\<close>

fun hasPrefix :: "string \<Rightarrow> string \<Rightarrow> bool" where
  "hasPrefix s [] = True"
| "hasPrefix [] (p # ps) = False"
| "hasPrefix (x # xs) (p # ps) = (x = p \<and> hasPrefix xs ps)"

fun stringsContains :: "string \<Rightarrow> string \<Rightarrow> bool" where
  "stringsContains [] sub = (sub = [])"
| "stringsContains (x # xs) sub = (hasPrefix (x # xs) sub \<or> stringsContains xs sub)"

text \<open>Lines 128 to 148.\<close>

definition reconcileCommonService :: "'w Client \<Rightarrow> Config \<Rightarrow> SolrCloud \<Rightarrow> ('w, error, unit) prog" where
  "reconcileCommonService c cfg instance =
     andThen (ownedThenSynced (constants cfg) instance (services c) ObjService
                (CopyServiceFields (copiers cfg)) (GenerateCommonService (generators cfg) instance))
       (\<lambda>r st. (Done (), st))"

text \<open>\<^verbatim>\<open>reconcileNodeService\<close>, lines 567 to 594: the error, or the cluster IP of the
  service that was found (empty when the service was created).\<close>

definition reconcileNodeService :: "'w Client \<Rightarrow> Config \<Rightarrow> SolrCloud \<Rightarrow> string \<Rightarrow> ('w, error, string) prog" where
  "reconcileNodeService c cfg instance nodeName =
     andThen (ownedThenSynced (constants cfg) instance (services c) ObjService
                (CopyServiceFields (copiers cfg)) (GenerateNodeService (generators cfg) instance nodeName))
       (\<lambda>r st. (Done (case snd r of
                         Created \<Rightarrow> []
                       | Updated foundService \<Rightarrow> ClusterIP foundService
                       | Unchanged foundService \<Rightarrow> ClusterIP foundService), st))"

text \<open>
  The loop of lines 155 to 169 over the node names, with the map of host names to IPs and
  the flag that blocks the StatefulSet. \<^verbatim>\<open>Spec.SolrAddressability.External\<close> is
  dereferenced without a check.
\<close>

fun nodeServicesLoop ::
    "'w Client \<Rightarrow> Config \<Rightarrow> SolrCloud \<Rightarrow> string list \<Rightarrow> labels \<times> bool \<Rightarrow> ('w, error, labels \<times> bool) prog" where
  "nodeServicesLoop c cfg instance [] acc s = (Done acc, s)"
| "nodeServicesLoop c cfg instance (nodeName # rest) acc s =
     (case reconcileNodeService c cfg instance nodeName s of
        (Done ip, s') \<Rightarrow>
          (case External (Spec instance) of
             None \<Rightarrow> (Crash, s')
           | Some ext \<Rightarrow>
               nodeServicesLoop c cfg instance rest
                 (if UseExternalAddress ext
                  then (if ip = [] then (fst acc, True)
                        else (setLabel (AdvertisedNodeHost (methods cfg) instance nodeName) ip (fst acc),
                              snd acc))
                  else acc)
                 s')
      | (Exit err, s') \<Rightarrow> (Exit err, s')
      | (Crash, s') \<Rightarrow> (Crash, s'))"

text \<open>Lines 150 to 170.\<close>

definition reconcileNodeServices ::
    "'w Client \<Rightarrow> Config \<Rightarrow> SolrCloud \<Rightarrow> string list \<Rightarrow> ('w, error, labels \<times> bool) prog" where
  "reconcileNodeServices c cfg instance solrNodeNames s =
     (if UsesIndividualNodeServices (methods cfg) instance
      then nodeServicesLoop c cfg instance solrNodeNames ([], False) s
      else (Done ([], False), s))"

text \<open>Lines 172 to 194.\<close>

definition reconcileHeadlessService :: "'w Client \<Rightarrow> Config \<Rightarrow> SolrCloud \<Rightarrow> ('w, error, unit) prog" where
  "reconcileHeadlessService c cfg instance s =
     (if UsesHeadlessService (methods cfg) instance
      then andThen (ownedThenSynced (constants cfg) instance (services c) ObjService
                      (CopyServiceFields (copiers cfg)) (GenerateHeadlessService (generators cfg) instance))
             (\<lambda>r st. (Done (), st)) s
      else (Done (), s))"

text \<open>An entry of the data of a ConfigMap; a missing key and a nil map give the empty string.\<close>

definition dataOf :: "ConfigMap \<Rightarrow> string \<Rightarrow> string" where
  "dataOf cm key = (case Data cm of None \<Rightarrow> [] | Some d \<Rightarrow> labelOf d key)"

text \<open>
  Lines 196 to 251: the name of the ConfigMap that holds solr.xml and the MD5 of its
  solr.xml, from the ConfigMap the user provided or from the generated one.
\<close>

definition reconcileConfigMap :: "'w Client \<Rightarrow> Config \<Rightarrow> SolrCloud \<Rightarrow> ('w, error, string \<times> string) prog" where
  "reconcileConfigMap c cfg instance s =
     (let solrXmlConfigMapName = ConfigMapName (methods cfg) instance;
          provided = (case ConfigMapOptions (Spec instance) of None \<Rightarrow> [] | Some n \<Rightarrow> n)
      in if ConfigMapOptions (Spec instance) \<noteq> None \<and> provided \<noteq> []
         then (case clientGet (configMaps c) (Namespace instance) provided s of
                 (Inl err, s') \<Rightarrow> (Exit err, s')
               | (Inr foundConfigMap, s') \<Rightarrow>
                   (case Data foundConfigMap of
                      None \<Rightarrow>
                        (Exit (OtherError (''provided ConfigMap '' @ provided @ '' has no data'')), s')
                    | Some d \<Rightarrow>
                        (case map_of d ''solr.xml'' of
                           None \<Rightarrow>
                             (Exit (OtherError (''required 'solr.xml' key not found in provided ConfigMap ''
                                                 @ provided)), s')
                         | Some solrXml \<Rightarrow>
                             if \<not> stringsContains solrXml ''${hostPort:''
                             then (Exit (OtherError (''custom solr.xml in ConfigMap '' @ provided
                                     @ '' must contain a placeholder for the 'hostPort' variable, such as <int name=\"hostPort\">${hostPort:80}</int>'')),
                                   s')
                             else (Done (Name foundConfigMap, md5hex (constants cfg) solrXml), s'))))
         else andThen (ownedThenSynced (constants cfg) instance (configMaps c) ObjConfigMap
                         (CopyConfigMapFields (copiers cfg)) (GenerateConfigMap (generators cfg) instance))
                (\<lambda>r st. (Done (solrXmlConfigMapName,
                                 (case snd r of
                                    Created \<Rightarrow> md5hex (constants cfg) (dataOf (fst r) ''solr.xml'')
                                  | Updated foundConfigMap \<Rightarrow>
                                      md5hex (constants cfg) (dataOf foundConfigMap ''solr.xml'')
                                  | Unchanged foundConfigMap \<Rightarrow> [])), st)) s)"

text \<open>
  Lines 255 to 273: with an auto-created certificate, the pass goes on only once the
  certificate is ready.
\<close>

definition reconcileTLSCertificate ::
    "'w Client \<Rightarrow> Config \<Rightarrow> SolrCloud \<Rightarrow> SolrTLSOptions \<Rightarrow> Result \<Rightarrow> ('w, Result \<times> error option, unit) prog" where
  "reconcileTLSCertificate c cfg instance tls requeueOrNot s =
     (case AutoCreate tls of
        None \<Rightarrow> (Done (), s)
      | Some autoCreate \<Rightarrow>
          (case reconcileAutoCreateTLS c cfg instance s of
             (Done tlsReady, s') \<Rightarrow>
               if \<not> tlsReady
               then (Exit (requeueOrNot\<lparr>RequeueAfter :=
                             (if IssuerRef autoCreate = None then 2 * Second else 30 * Second)\<rparr>,
                           None), s')
               else (Done (), s')
           | (Exit err, s') \<Rightarrow> (Exit (requeueOrNot, Some err), s')
           | (Crash, s') \<Rightarrow> (Crash, s')))"

text \<open>
  Lines 275 to 292: the TLS secret is looked up; its resource version is stored in the
  spec when a restart on rotation is asked for, and a missing keystore key asks for the
  init container.
\<close>

definition reconcileTLSSecret ::
    "'w Client \<Rightarrow> SolrCloud \<Rightarrow> SolrTLSOptions \<Rightarrow> Result \<Rightarrow> ('w, Result \<times> error option, SolrCloud \<times> bool) prog" where
  "reconcileTLSSecret c instance tls requeueOrNot s =
     (case clientGet (secrets c) (Namespace instance) (selName (PKCS12Secret tls)) s of
        (Inl lookupErr, s') \<Rightarrow> (Exit (requeueOrNot, Some lookupErr), s')
      | (Inr foundTLSSecret, s') \<Rightarrow>
          (Done ((if RestartOnTLSSecretUpdate tls
                  then instance\<lparr>Spec := (Spec instance)\<lparr>SolrTLS :=
                         Some (tls\<lparr>TLSSecretVersion := ResourceVersion foundTLSSecret\<rparr>)\<rparr>\<rparr>
                  else instance),
                 map_of (secretData foundTLSSecret) (selKey (PKCS12Secret tls)) = None), s'))"

text \<open>Lines 294 to 307: the urlScheme cluster property.\<close>

definition reconcileUrlScheme ::
    "'w Client \<Rightarrow> Config \<Rightarrow> SolrCloud \<Rightarrow> SolrCloudStatus \<Rightarrow> Result
       \<Rightarrow> ('w, Result \<times> error option, SolrCloudStatus) prog" where
  "reconcileUrlScheme c cfg instance status0 requeueOrNot s =
     (let st = status0\<lparr>UrlSchemeClusterProperty := UrlSchemeClusterProperty (Status instance)\<rparr>
      in if \<not> UrlSchemeClusterProperty st
            \<and> stringsContains (ZkConnectionString (methods cfg) st) '':''
            \<and> ZkConnectionString (methods cfg) st \<noteq> ''host:7271/''
         then (case setUrlSchemeClusterProperty c st (fst s) of
                 ((updated, err), w) \<Rightarrow>
                   if \<not> updated \<and> err = None
                   then (Exit (requeueOrNot\<lparr>RequeueAfter := 5 * Second\<rparr>, None), (w, snd s))
                   else (case err of
                           Some e \<Rightarrow> (Exit (requeueOrNot, Some e), (w, snd s))
                         | None \<Rightarrow> (Done (st\<lparr>UrlSchemeClusterProperty := True\<rparr>), (w, snd s))))
         else (Done st, s))"

text \<open>Lines 253 to 308: the instance and the new status as the TLS steps leave them, and
  \<^verbatim>\<open>needsPkcs12InitContainer\<close>.\<close>

definition reconcileTLS ::
    "'w Client \<Rightarrow> Config \<Rightarrow> SolrCloud \<Rightarrow> SolrCloudStatus \<Rightarrow> Result
       \<Rightarrow> ('w, Result \<times> error option, SolrCloud \<times> SolrCloudStatus \<times> bool) prog" where
  "reconcileTLS c cfg instance status0 requeueOrNot s =
     (case SolrTLS (Spec instance) of
        None \<Rightarrow> (Done (instance, status0, False), s)
      | Some tls \<Rightarrow>
          andThen (reconcileTLSCertificate c cfg instance tls requeueOrNot)
            (\<lambda>u. andThen (reconcileTLSSecret c instance tls requeueOrNot)
                    (\<lambda>r. andThen (reconcileUrlScheme c cfg (fst r) status0 requeueOrNot)
                            (\<lambda>st s'. (Done (fst r, st, snd r), s')))) s)"

text \<open>
  Lines 315 to 359: the StatefulSet is synchronized, or only looked up when its
  reconciliation is blocked. The result is the label selector of the claims and the status
  of the StatefulSet that was found. \<^verbatim>\<open>Spec.Selector\<close> is dereferenced without a check.
\<close>

definition reconcileStatefulSet ::
    "'w Client \<Rightarrow> Config \<Rightarrow> SolrCloud \<Rightarrow> SolrCloudStatus \<Rightarrow> labels \<Rightarrow> string \<Rightarrow> string \<Rightarrow> bool \<Rightarrow> bool
       \<Rightarrow> ('w, error, labels \<times> StatefulSetStatus) prog" where
  "reconcileStatefulSet c cfg instance status0 hostNameIpMap solrXmlConfigMapName solrXmlMd5
       needsPkcs12InitContainer blockReconciliationOfStatefulSet s =
     (if \<not> blockReconciliationOfStatefulSet
      then (case SetControllerReference (constants cfg) instance
                   (GenerateStatefulSet (generators cfg) instance status0 hostNameIpMap
                      solrXmlConfigMapName solrXmlMd5 needsPkcs12InitContainer) of
              Inl err \<Rightarrow> (Exit err, s)
            | Inr statefulSet \<Rightarrow>
                (case clientGet (statefulSets c) (Namespace statefulSet) (Name statefulSet) s of
                   (Inl err, s') \<Rightarrow>
                     if err = NotFound
                     then (case clientCreate (statefulSets c) ObjStatefulSet statefulSet s' of
                             (err, s'') \<Rightarrow>
                               (case Selector statefulSet of
                                  None \<Rightarrow> (Crash, s'')
                                | Some matchLabels \<Rightarrow>
                                    (case err of
                                       Some e \<Rightarrow> (Exit e, s'')
                                     | None \<Rightarrow> (Done (matchLabels, zeroStatefulSetStatus), s''))))
                     else (Exit err, s')
                 | (Inr foundStatefulSet, s') \<Rightarrow>
                     (case CopyStatefulSetFields (copiers cfg) statefulSet foundStatefulSet of
                        (changed, copied) \<Rightarrow>
                          (case (if changed
                                 then clientUpdate (statefulSets c) ObjStatefulSet copied s'
                                 else (None, s')) of
                             (err, s'') \<Rightarrow>
                               (case Selector copied of
                                  None \<Rightarrow> (Crash, s'')
                                | Some matchLabels \<Rightarrow>
                                    (case err of
                                       Some e \<Rightarrow> (Exit e, s'')
                                     | None \<Rightarrow>
                                         (Done (matchLabels, statefulSetStatus foundStatefulSet), s'')))))))
      else (case clientGet (statefulSets c) (Namespace instance) (StatefulSetName (methods cfg) instance) s of
              (Inr foundStatefulSet, s') \<Rightarrow>
                (case Selector foundStatefulSet of
                   None \<Rightarrow> (Crash, s')
                 | Some matchLabels \<Rightarrow> (Done (matchLabels, statefulSetStatus foundStatefulSet), s'))
            | (Inl err, s') \<Rightarrow>
                if err \<noteq> NotFound then (Exit err, s')
                else (Done ([], zeroStatefulSetStatus), s')))"

text \<open>
  Lines 361 to 367: the storage finalizer is reconciled only with a non-empty selector,
  and its error ends the pass with a requeue after ten seconds and no error.
\<close>

definition reconcileStorage ::
    "'w Client \<Rightarrow> Config \<Rightarrow> SolrCloud \<Rightarrow> labels \<Rightarrow> ('w, Result \<times> error option, SolrCloud) prog" where
  "reconcileStorage c cfg instance pvcLabelSelector s =
     (if length pvcLabelSelector > 0
      then (case reconcileStorageFinalizer c (constants cfg) instance pvcLabelSelector s of
              (Done cloud, s') \<Rightarrow> (Done cloud, s')
            | (Exit err, s') \<Rightarrow> (Exit (\<lparr>Requeue = False, RequeueAfter = Second * 10\<rparr>, None), s')
            | (Crash, s') \<Rightarrow> (Crash, s'))
      else (Done instance, s))"

text \<open>The loop of lines 392 to 400: each delete overwrites \<^verbatim>\<open>err\<close>.\<close>

definition deletePodsForUpdate ::
    "'w Client \<Rightarrow> Pod list \<Rightarrow> error option \<times> 'w state \<Rightarrow> error option \<times> 'w state" where
  "deletePodsForUpdate c podsToUpdate start =
     foldl (\<lambda>acc pod. clientDelete (pods c) ObjPod pod (Some (UID pod)) (snd acc)) start podsToUpdate"

text \<open>Lines 401 to 405.\<close>

definition tightenRequeue :: "bool \<Rightarrow> Result \<Rightarrow> Result" where
  "tightenRequeue failedOrRetry requeueOrNot =
     (if failedOrRetry
      then (if RequeueAfter requeueOrNot \<le> 0 \<or> RequeueAfter requeueOrNot > Second * 15
            then requeueOrNot\<lparr>RequeueAfter := Second * 15\<rparr> else requeueOrNot)
      else requeueOrNot)"

text \<open>
  Lines 376 to 406: the managed update. \<^verbatim>\<open>err\<close> is nil when the loop starts, since the
  status aggregation before it returned no error.
\<close>

definition managedUpdate ::
    "'w Client \<Rightarrow> SolrCloud \<Rightarrow> SolrCloudStatus \<Rightarrow> Pod list \<Rightarrow> Pod list \<Rightarrow> int \<Rightarrow> Result
       \<Rightarrow> ('w, Result \<times> error option, Result) prog" where
  "managedUpdate c instance status1 outOfDate notStarted available requeueOrNot s =
     (case SpecReplicas (Spec instance) of
        None \<Rightarrow> (Crash, s)
      | Some replicas \<Rightarrow>
          (let totalPodCount = sint replicas
           in if UpdateStrategyMethod (Spec instance) = ManagedUpdate
                 \<and> int (length outOfDate) + int (length notStarted) > 0
              then (case DeterminePodsSafeToUpdate c instance outOfDate totalPodCount
                           (sint (ReadyReplicas status1)) available (int (length notStarted)) (fst s) of
                      ((additionalPodsToUpdate, retryLater), w) \<Rightarrow>
                        (case deletePodsForUpdate c (notStarted @ additionalPodsToUpdate)
                                (None, (w, snd s)) of
                           (err, s') \<Rightarrow>
                             (Done (tightenRequeue (err \<noteq> None \<or> retryLater) requeueOrNot), s')))
              else (Done requeueOrNot, s)))"

text \<open>Lines 408 to 431.\<close>

definition reconcileIngress ::
    "'w Client \<Rightarrow> Config \<Rightarrow> SolrCloud \<Rightarrow> string list \<Rightarrow> ('w, error, unit) prog" where
  "reconcileIngress c cfg instance solrNodeNames s =
     (case External (Spec instance) of
        None \<Rightarrow> (Done (), s)
      | Some extAddressabilityOpts \<Rightarrow>
          if Method extAddressabilityOpts = IngressMethod
          then andThen (ownedThenSynced (constants cfg) instance (ingresses c) ObjIngress
                          (CopyIngressFields (copiers cfg))
                          (GenerateIngress (generators cfg) instance solrNodeNames (IngressBaseUrl cfg)))
                 (\<lambda>r st. (Done (), st)) s
          else (Done (), s))"

text \<open>
  Lines 433 to 442: the status is written back when \<^verbatim>\<open>reflect.DeepEqual\<close> finds it
  different from the status the instance came with. Falling through is the final
  \<^verbatim>\<open>return requeueOrNot, nil\<close>.
\<close>

definition writeBackStatus ::
    "'w Client \<Rightarrow> SolrCloud \<Rightarrow> SolrCloudStatus \<Rightarrow> Result \<Rightarrow> ('w, Result \<times> error option, Result) prog" where
  "writeBackStatus c instance status1 requeueOrNot s =
     (if Status instance \<noteq> status1
      then (case clientStatusUpdate c (instance\<lparr>Status := status1\<rparr>) s of
              (Some err, s') \<Rightarrow> (Exit (requeueOrNot, Some err), s')
            | (None, s') \<Rightarrow> (Done requeueOrNot, s'))
      else (Done requeueOrNot, s))"

text \<open>
  The local variables of \<^verbatim>\<open>Reconcile\<close> when it reaches line 361, after the StatefulSet
  step.
\<close>

record Locals =
  instanceOf :: SolrCloud
  newStatusOf :: SolrCloudStatus
  solrNodeNamesOf :: "string list"
  pvcLabelSelectorOf :: labels
  statefulSetStatusOf :: StatefulSetStatus

text \<open>Lines 118 to 359, from the ensemble to the StatefulSet.\<close>

definition reconcileFront :: "'w Client \<Rightarrow> Config \<Rightarrow> SolrCloud \<Rightarrow> ('w, Result \<times> error option, Locals) prog" where
  "reconcileFront c cfg instance =
     (let requeueOrNot = emptyResult;
          solrNodeNames = GetAllSolrNodeNames (methods cfg) instance
      in andThen (returning requeueOrNot (reconcileZk c cfg instance zeroStatus))
           (\<lambda>status0.
        andThen (returning requeueOrNot (reconcileCommonService c cfg instance))
           (\<lambda>u.
        andThen (returning requeueOrNot (reconcileNodeServices c cfg instance solrNodeNames))
           (\<lambda>nodes.
        andThen (returning requeueOrNot (reconcileHeadlessService c cfg instance))
           (\<lambda>u.
        andThen (returning requeueOrNot (reconcileConfigMap c cfg instance))
           (\<lambda>configMap.
        andThen (reconcileTLS c cfg instance status0 requeueOrNot)
           (\<lambda>tls.
        andThen (returning requeueOrNot
                   (reconcileStatefulSet c cfg (fst tls) (fst (snd tls)) (fst nodes)
                      (fst configMap) (snd configMap) (snd (snd tls))
                      (snd nodes \<or> \<not> stringsContains (ZkConnectionString (methods cfg) (fst (snd tls))) '':'')))
           (\<lambda>sts s.
             (Done \<lparr>instanceOf = fst tls, newStatusOf = fst (snd tls),
                     solrNodeNamesOf = solrNodeNames,
                     pvcLabelSelectorOf = fst sts, statefulSetStatusOf = snd sts\<rparr>, s)))))))))"

text \<open>
  Lines 361 to 431, from the storage finalizer to the ingress: the instance, the new
  status and \<^verbatim>\<open>requeueOrNot\<close> as they stand before the status is written back.
\<close>

definition reconcileMiddle ::
    "'w Client \<Rightarrow> Config \<Rightarrow> Locals \<Rightarrow> ('w, Result \<times> error option, SolrCloud \<times> SolrCloudStatus \<times> Result) prog" where
  "reconcileMiddle c cfg l =
     (let requeueOrNot = emptyResult
      in andThen (reconcileStorage c cfg (instanceOf l) (pvcLabelSelectorOf l))
           (\<lambda>instance.
        andThen (returning requeueOrNot
                   (reconcileCloudStatus (pods c) (methods cfg) (constants cfg) instance
                      (newStatusOf l) (statefulSetStatusOf l)))
           (\<lambda>r.
        andThen (managedUpdate c instance (fst r) (fst (snd r)) (fst (snd (snd r)))
                   (snd (snd (snd r))) requeueOrNot)
           (\<lambda>requeueOrNot.
        andThen (returning requeueOrNot (reconcileIngress c cfg instance (solrNodeNamesOf l)))
           (\<lambda>u s. (Done (instance, fst r, requeueOrNot), s))))))"

text \<open>Lines 361 to 443, from the storage finalizer to the end.\<close>

definition reconcileBack :: "'w Client \<Rightarrow> Config \<Rightarrow> Locals \<Rightarrow> ('w, Result \<times> error option, Result) prog" where
  "reconcileBack c cfg l =
     andThen (reconcileMiddle c cfg l)
       (\<lambda>r. writeBackStatus c (fst r) (fst (snd r)) (snd (snd r)))"

text \<open>
  \<^verbatim>\<open>Reconcile\<close>, lines 92 to 443. The request is the namespace and the name of the
  SolrCloud.
\<close>

definition Reconcile :: "'w Client \<Rightarrow> Config \<Rightarrow> string \<times> string \<Rightarrow> ('w, Result \<times> error option, Result) prog" where
  "Reconcile c cfg req s =
     (case clientGet (solrClouds c) (fst req) (snd req) s of
        (Inl err, s') \<Rightarrow>
          if err = NotFound then (Exit (emptyResult, None), s')
          else (Exit (emptyResult, Some err), s')
      | (Inr fetched, s') \<Rightarrow>
          (case WithDefaults (methods cfg) (IngressBaseUrl cfg) fetched of
             (changed, instance) \<Rightarrow>
               if changed
               then (case clientUpdate (solrClouds c) ObjSolrCloud instance s' of
                       (Some err, s'') \<Rightarrow> (Exit (emptyResult, Some err), s'')
                     | (None, s'') \<Rightarrow> (Exit (emptyResult\<lparr>Requeue := True\<rparr>, None), s''))
               else andThen (reconcileFront c cfg instance) (reconcileBack c cfg) s'))"

text \<open>What \<^verbatim>\<open>Reconcile\<close> hands back to its caller; \<open>None\<close> is a panic.\<close>

definition passResult :: "(Result \<times> error option, Result) flow \<Rightarrow> (Result \<times> error option) option" where
  "passResult f = (case f of Done r \<Rightarrow> Some (r, None) | Exit re \<Rightarrow> Some re | Crash \<Rightarrow> None)"

section \<open>Observations used in the statements\<close>

text \<open>
  The deletes that the loop of lines 707 to 714 sends for the listed claims: none unless
  the stored status counts as many ready replicas as replicas and more claims are listed
  than replicas are desired; then one for each orphaned claim, in the order of the list.
\<close>

definition orphanDeletes :: "UtilConstants \<Rightarrow> SolrCloud \<Rightarrow> PersistentVolumeClaim list \<Rightarrow> call list" where
  "orphanDeletes k cloud items =
     (case SpecReplicas (Spec cloud) of
        None \<Rightarrow> []
      | Some replicas \<Rightarrow>
          if ReadyReplicas (Status cloud) = Replicas (Status cloud) \<and> int (length items) > sint replicas
          then map (\<lambda>p. CallDelete (ObjPVC (pvcDelete p)) None)
                 (filter (\<lambda>p. IsPVCOrphan k (Name p) replicas) items)
          else [])"




definition isCreate :: "call \<Rightarrow> bool" where
  "isCreate cl = (case cl of CallCreate x \<Rightarrow> True | _ \<Rightarrow> False)"

definition isPodDelete :: "call \<Rightarrow> bool" where
  "isPodDelete cl = (case cl of CallDelete (ObjPod x) pre \<Rightarrow> True | _ \<Rightarrow> False)"

text \<open>
  The selector that a pass has in \<^verbatim>\<open>pvcLabelSelector\<close> at line 363: the one the
  StatefulSet step found, and the empty map it starts with when the pass does not get
  that far.
\<close>

definition discoveredSelector :: "'w Client \<Rightarrow> Config \<Rightarrow> SolrCloud \<Rightarrow> 'w state \<Rightarrow> labels" where
  "discoveredSelector c cfg inst s =
     (case fst (reconcileFront c cfg inst s) of
        Done l \<Rightarrow> pvcLabelSelectorOf l
      | Exit r \<Rightarrow> []
      | Crash \<Rightarrow> [])"

definition passSelector :: "'w Client \<Rightarrow> Config \<Rightarrow> string \<times> string \<Rightarrow> 'w state \<Rightarrow> labels" where
  "passSelector c cfg req s =
     (case clientGet (solrClouds c) (fst req) (snd req) s of
        (Inl err, s') \<Rightarrow> []
      | (Inr fetched, s') \<Rightarrow>
          (case WithDefaults (methods cfg) (IngressBaseUrl cfg) fetched of
             (changed, inst) \<Rightarrow> if changed then [] else discoveredSelector c cfg inst s'))"

text \<open>
  How the storage-finalizer reconciliation of a pass ends, when the pass gets to it with
  a non-empty selector.
\<close>

definition storageAttempt ::
    "'w Client \<Rightarrow> Config \<Rightarrow> SolrCloud \<Rightarrow> 'w state \<Rightarrow> ((error, SolrCloud) flow \<times> 'w state) option" where
  "storageAttempt c cfg inst s =
     (case reconcileFront c cfg inst s of
        (Done l, s1) \<Rightarrow>
          if length (pvcLabelSelectorOf l) > 0
          then Some (reconcileStorageFinalizer c (constants cfg) (instanceOf l) (pvcLabelSelectorOf l) s1)
          else None
      | (Exit r, s1) \<Rightarrow> None
      | (Crash, s1) \<Rightarrow> None)"

text \<open>
  The pass up to line 431, just before the status is written back.
\<close>

definition beforeWriteBack ::
    "'w Client \<Rightarrow> Config \<Rightarrow> SolrCloud \<Rightarrow> ('w, Result \<times> error option, SolrCloud \<times> SolrCloudStatus \<times> Result) prog" where
  "beforeWriteBack c cfg inst = andThen (reconcileFront c cfg inst) (reconcileMiddle c cfg)"

text \<open>Kinds of writes.\<close>

definition isPVCDelete :: "call \<Rightarrow> bool" where
  "isPVCDelete cl = (case cl of CallDelete (ObjPVC x) pre \<Rightarrow> True | _ \<Rightarrow> False)"

definition isSolrCloudUpdate :: "call \<Rightarrow> bool" where
  "isSolrCloudUpdate cl = (case cl of CallUpdate (ObjSolrCloud x) \<Rightarrow> True | _ \<Rightarrow> False)"

definition isStatusUpdate :: "call \<Rightarrow> bool" where
  "isStatusUpdate cl = (case cl of CallStatusUpdate x \<Rightarrow> True | _ \<Rightarrow> False)"

text \<open>A write that touches neither a claim nor the SolrCloud object nor its status.\<close>

definition benign :: "call \<Rightarrow> bool" where
  "benign cl = (\<not> isPVCDelete cl \<and> \<not> isSolrCloudUpdate cl \<and> \<not> isStatusUpdate cl)"

text \<open>Every write that \<open>f\<close> adds satisfies \<open>A\<close>.\<close>

definition emitsOnly :: "(call \<Rightarrow> bool) \<Rightarrow> ('w state \<Rightarrow> 'x \<times> 'w state) \<Rightarrow> bool" where
  "emitsOnly A f = (\<forall>s. \<exists>new. snd (snd (f s)) = snd s @ new \<and> (\<forall>cl \<in> set new. A cl))"

text \<open>A write of the storage finalizer: a delete of a claim or an update of the SolrCloud object.\<close>

definition storageWrite :: "call \<Rightarrow> bool" where
  "storageWrite cl = (isPVCDelete cl \<or> isSolrCloudUpdate cl)"

text \<open>
  The update of lines 109 to 116, which stores the defaults when \<^verbatim>\<open>WithDefaults\<close> has
  changed the object that was read.
\<close>

definition defaultsWrite :: "'w Client \<Rightarrow> Config \<Rightarrow> string \<times> string \<Rightarrow> 'w state \<Rightarrow> call list" where
  "defaultsWrite c cfg req s =
     (case fst (clientGet (solrClouds c) (fst req) (snd req) s) of
        Inl err \<Rightarrow> []
      | Inr fetched \<Rightarrow>
          (case WithDefaults (methods cfg) (IngressBaseUrl cfg) fetched of
             (changed, inst) \<Rightarrow> if changed then [CallUpdate (ObjSolrCloud inst)] else []))"

text \<open>
  The update of lines 433 to 440 for a pass that reaches line 433 with the given
  instance, new status and \<^verbatim>\<open>requeueOrNot\<close>, compared with the status that \<open>inst\<close> holds;
  nothing for a pass that has returned before.
\<close>

definition statusWrite :: "SolrCloud \<Rightarrow> (Result \<times> error option, SolrCloud \<times> SolrCloudStatus \<times> Result) flow \<Rightarrow> call list" where
  "statusWrite inst f =
     (case f of
        Done r \<Rightarrow> if Status inst \<noteq> fst (snd r)
                  then [CallStatusUpdate (ObjSolrCloud ((fst r)\<lparr>Status := fst (snd r)\<rparr>))] else []
      | Exit e \<Rightarrow> []
      | Crash \<Rightarrow> [])"

section \<open>A scripted client and a small cloud, for concrete runs\<close>

text \<open>
  A client without a state of its own: every read of a kind returns what the script says
  for the name, every list returns the scripted items, and a write fails when the script
  says so for the object.
\<close>

definition scriptedApi ::
    "(string \<Rightarrow> error + 'a) \<Rightarrow> (error + 'a list) \<Rightarrow> ('a \<Rightarrow> error option) \<Rightarrow> (unit, 'a) api" where
  "scriptedApi found listed failing = \<lparr>
     apiGet = (\<lambda>ns n w. (found n, w)),
     apiList = (\<lambda>ns sel w. (listed, w)),
     apiCreate = (\<lambda>x w. (failing x, w)),
     apiUpdate = (\<lambda>x w. (failing x, w)),
     apiDelete = (\<lambda>x pre w. (failing x, w))\<rparr>"

text \<open>An image reference \<^verbatim>\<open>name:tag\<close> has the version \<^verbatim>\<open>tag\<close>.\<close>

definition tagOf :: "string \<Rightarrow> string" where
  "tagOf img = (case dropWhile (\<lambda>ch. ch \<noteq> CHR '':'') img of [] \<Rightarrow> [] | _ # t \<Rightarrow> t)"

definition demoMethods :: SolrCloudMethods where
  "demoMethods = \<lparr>
     WithDefaults = (\<lambda>base sc. (False, sc)),
     GetAllSolrNodeNames = (\<lambda>sc. []),
     UsesIndividualNodeServices = (\<lambda>sc. False),
     UsesHeadlessService = (\<lambda>sc. True),
     AdvertisedNodeHost = (\<lambda>sc n. n),
     ConfigMapName = (\<lambda>sc. Name sc @ ''-solrcloud-configmap''),
     StatefulSetName = (\<lambda>sc. Name sc @ ''-solrcloud''),
     SharedLabels = (\<lambda>sc. [(''solr-cloud'', Name sc)]),
     InternalNodeUrl = (\<lambda>sc n withPort. n @ ''.'' @ Namespace sc),
     ExternalNodeUrl = (\<lambda>sc n domain withPort. n @ ''.'' @ domain),
     InternalCommonUrl = (\<lambda>sc withPort. Name sc @ ''-solrcloud-common.'' @ Namespace sc),
     ExternalCommonUrl = (\<lambda>sc domain withPort. Name sc @ ''.'' @ domain),
     ImageVersion = tagOf,
     ZkConnectionString = (\<lambda>st. InternalConnectionString (ZookeeperConnectionInfo st)
                                  @ ChRoot (ZookeeperConnectionInfo st)),
     SolrTechnologyLabel = ''solr-cloud''\<rparr>"

text \<open>The number written in decimal at the end of a name, after its last hyphen.\<close>

definition digitValue :: "char \<Rightarrow> int" where
  "digitValue ch = int (of_char ch) - 48"

definition demoOrdinal :: "string \<Rightarrow> int" where
  "demoOrdinal n =
     foldl (\<lambda>acc ch. 10 * acc + digitValue ch) 0 (rev (takeWhile (\<lambda>ch. ch \<noteq> CHR ''-'') (rev n)))"

definition demoConstants :: UtilConstants where
  "demoConstants = \<lparr>BackupRestoreVolume = ''backup-restore'', SolrNodeContainer = ''solrcloud-node'',
     SolrStorageFinalizer = ''storage.finalizers.solr.apache.org'',
     pvcOrdinal = demoOrdinal,
     controllerReference = (\<lambda>owner meta. Inr [Name owner]),
     md5hex = (\<lambda>content. ''md5-of-'' @ content)\<rparr>"

definition demoSpec :: SolrCloudSpec where
  "demoSpec = \<lparr>
     SpecReplicas = Some 3,
     ZookeeperRef = \<lparr>ConnectionInfo = Some \<lparr>InternalConnectionString = ''zk:2181'',
                        ExternalConnectionString = None, ChRoot = ''/''\<rparr>,
                      ProvidedZookeeper = None\<rparr>,
     SolrImageTag = ''9.0'',
     External = None,
     ConfigMapOptions = None,
     SolrTLS = None,
     PersistentStorage = Some VolumeReclaimPolicyDelete,
     BackupRestoreOptions = None,
     UpdateStrategyMethod = ManagedUpdate\<rparr>"

definition demoCloud :: SolrCloud where
  "demoCloud = ObjectMeta.extend (emptyMeta\<lparr>Name := ''demo'', Namespace := ''search''\<rparr>)
     (SolrCloud.fields demoSpec zeroStatus)"

text \<open>A pod of the cloud: its name, UID, image, revision, readiness, and whether the solr
  container reports that it has started.\<close>

definition demoPod :: "string \<Rightarrow> string \<Rightarrow> string \<Rightarrow> string \<Rightarrow> bool \<Rightarrow> bool option \<Rightarrow> Pod" where
  "demoPod n uid img revision ready started =
     ObjectMeta.extend
       (emptyMeta\<lparr>Name := n, Namespace := ''search'', UID := uid,
                   Labels := [(''controller-revision-hash'', revision)]\<rparr>)
       (Pod.fields ''worker-1'' [\<lparr>Image = img\<rparr>] []
          [\<lparr>containerName = ''solrcloud-node'', Started = started\<rparr>]
          [\<lparr>condType = ''Ready'', condStatus = (if ready then ''True'' else ''False'')\<rparr>])"

definition mixedPods :: "Pod list" where
  "mixedPods = [demoPod ''demo-solrcloud-1'' ''uid-1'' ''solr:8.0'' ''rev-1'' True (Some True),
                demoPod ''demo-solrcloud-0'' ''uid-0'' ''solr:7.0'' ''rev-1'' False (Some True)]"

definition mixedPodApi :: "(unit, Pod) api" where
  "mixedPodApi = scriptedApi (\<lambda>n. Inl NotFound) (Inr mixedPods) (\<lambda>p. None)"

definition fullStatefulSetStatus :: StatefulSetStatus where
  "fullStatefulSetStatus = \<lparr>stsReplicas = 3, stsReadyReplicas = 3, stsUpdateRevision = ''rev-2''\<rparr>"

text \<open>A client for which nothing exists yet and every write succeeds.\<close>

definition quietClient :: "unit Client" where
  "quietClient = \<lparr>
     solrClouds = scriptedApi (\<lambda>n. Inl NotFound) (Inr []) (\<lambda>x. None),
     statusUpdate = (\<lambda>x w. (None, w)),
     services = scriptedApi (\<lambda>n. Inl NotFound) (Inr []) (\<lambda>x. None),
     configMaps = scriptedApi (\<lambda>n. Inl NotFound) (Inr []) (\<lambda>x. None),
     secrets = scriptedApi (\<lambda>n. Inl NotFound) (Inr []) (\<lambda>x. None),
     certificates = scriptedApi (\<lambda>n. Inl NotFound) (Inr []) (\<lambda>x. None),
     issuers = scriptedApi (\<lambda>n. Inl NotFound) (Inr []) (\<lambda>x. None),
     zookeeperClusters = scriptedApi (\<lambda>n. Inl NotFound) (Inr []) (\<lambda>x. None),
     statefulSets = scriptedApi (\<lambda>n. Inl NotFound) (Inr []) (\<lambda>x. None),
     ingresses = scriptedApi (\<lambda>n. Inl NotFound) (Inr []) (\<lambda>x. None),
     pods = scriptedApi (\<lambda>n. Inl NotFound) (Inr []) (\<lambda>x. None),
     persistentVolumeClaims = scriptedApi (\<lambda>n. Inl NotFound) (Inr []) (\<lambda>x. None),
     DeterminePodsSafeToUpdate = (\<lambda>instance outOfDate total ready available notStarted w. (([], False), w)),
     setUrlSchemeClusterProperty = (\<lambda>st w. ((True, None), w))\<rparr>"

text \<open>A claim of the cloud, by name.\<close>

definition demoClaim :: "string \<Rightarrow> PersistentVolumeClaim" where
  "demoClaim n =
     ObjectMeta.extend (emptyMeta\<lparr>Name := n, Namespace := ''search'', UID := ''uid-of-'' @ n\<rparr>)
       (PersistentVolumeClaim.fields ''10Gi'')"

definition claimSelector :: labels where
  "claimSelector = [(''solr-cloud'', ''demo''), (''technology'', ''solr-cloud'')]"

text \<open>The cloud once its three replicas are up: the stored status counts three of three.\<close>

definition settledCloud :: SolrCloud where
  "settledCloud = demoCloud\<lparr>Status := zeroStatus\<lparr>Replicas := 3, ReadyReplicas := 3\<rparr>,
     Finalizers := [''storage.finalizers.solr.apache.org'']\<rparr>"

text \<open>Two claims are listed, with the ordinals 0 and 5.\<close>

definition sparseClaims :: "PersistentVolumeClaim list" where
  "sparseClaims = [demoClaim ''data-demo-solrcloud-0'', demoClaim ''data-demo-solrcloud-5'']"

definition sparseClaimsClient :: "unit Client" where
  "sparseClaimsClient = quietClient\<lparr>persistentVolumeClaims :=
     scriptedApi (\<lambda>n. Inl NotFound) (Inr sparseClaims) (\<lambda>x. None)\<rparr>"

text \<open>Five claims are listed, with the ordinals 0 to 4, after a scale-down from five to three.\<close>

definition fiveClaims :: "PersistentVolumeClaim list" where
  "fiveClaims = map demoClaim [''data-demo-solrcloud-0'', ''data-demo-solrcloud-1'',
     ''data-demo-solrcloud-2'', ''data-demo-solrcloud-3'', ''data-demo-solrcloud-4'']"

definition fiveClaimsClient :: "unit Client" where
  "fiveClaimsClient = quietClient\<lparr>persistentVolumeClaims :=
     scriptedApi (\<lambda>n. Inl NotFound) (Inr fiveClaims) (\<lambda>x. None)\<rparr>"

text \<open>Generators that name each resource after the cloud, and copy helpers that compare
  and copy the one field the fixtures vary.\<close>

definition namedMeta :: "SolrCloud \<Rightarrow> string \<Rightarrow> ObjectMeta" where
  "namedMeta sc n = emptyMeta\<lparr>Name := n, Namespace := Namespace sc\<rparr>"


definition demoGenerators :: Generators where
  "demoGenerators = \<lparr>
     GenerateCommonService = (\<lambda>sc. ObjectMeta.extend (namedMeta sc (Name sc @ ''-solrcloud-common''))
        (Service.fields [] ''common'')),
     GenerateNodeService = (\<lambda>sc n. ObjectMeta.extend (namedMeta sc n) (Service.fields [] ''node'')),
     GenerateHeadlessService = (\<lambda>sc. ObjectMeta.extend (namedMeta sc (Name sc @ ''-solrcloud-headless''))
        (Service.fields [] ''headless'')),
     GenerateConfigMap = (\<lambda>sc. ObjectMeta.extend (namedMeta sc (Name sc @ ''-solrcloud-configmap''))
        (ConfigMap.fields (Some [(''solr.xml'', ''<solr>${hostPort:80}</solr>'')]))),
     GenerateStatefulSet = (\<lambda>sc st hosts cm md5 needsInit.
        ObjectMeta.extend (namedMeta sc (Name sc @ ''-solrcloud''))
          (StatefulSet.fields (Some [(''solr-cloud'', Name sc), (''technology'', ''solr-cloud'')])
             (cm @ '' '' @ md5) zeroStatefulSetStatus)),
     GenerateIngress = (\<lambda>sc names base. ObjectMeta.extend (namedMeta sc (Name sc @ ''-solrcloud-common''))
        (Ingress.fields base)),
     GenerateZookeeperCluster = (\<lambda>sc pzk. ObjectMeta.extend (namedMeta sc (Name sc @ ''-solrcloud-zookeeper''))
        (ZookeeperCluster.fields 3 [] 2181 (zkOptions pzk))),
     GenerateKeystoreSecret = (\<lambda>sc. ObjectMeta.extend (namedMeta sc (Name sc @ ''-pkcs12-keystore''))
        (Secret.fields [(''password-key'', ''generated'')])),
     GenerateSelfSignedIssuer = (\<lambda>sc n. ObjectMeta.extend (namedMeta sc n) (Issuer.fields ''selfSigned'')),
     GenerateCertificate = (\<lambda>sc. ObjectMeta.extend (namedMeta sc ''demo-tls'')
        (Certificate.fields ''demo-tls-secret'' (''dns:'' @ Name sc @ ''.example.org'')))\<rparr>"

definition demoCopiers :: Copiers where
  "demoCopiers = \<lparr>
     CopyServiceFields = (\<lambda>desired live.
        (serviceSpec desired \<noteq> serviceSpec live, live\<lparr>serviceSpec := serviceSpec desired\<rparr>)),
     CopyConfigMapFields = (\<lambda>desired live. (Data desired \<noteq> Data live, live\<lparr>Data := Data desired\<rparr>)),
     CopyStatefulSetFields = (\<lambda>desired live.
        (statefulSetSpec desired \<noteq> statefulSetSpec live,
         live\<lparr>statefulSetSpec := statefulSetSpec desired\<rparr>)),
     CopyIngressFields = (\<lambda>desired live.
        (ingressSpec desired \<noteq> ingressSpec live, live\<lparr>ingressSpec := ingressSpec desired\<rparr>)),
     CopyZookeeperClusterFields = (\<lambda>desired live.
        (zookeeperSpec desired \<noteq> zookeeperSpec live, live\<lparr>zookeeperSpec := zookeeperSpec desired\<rparr>)),
     CopyCreateCertificateFields = (\<lambda>desired live.
        (createFields desired \<noteq> createFields live, live\<lparr>createFields := createFields desired\<rparr>))\<rparr>"

definition demoConfig :: Config where
  "demoConfig = \<lparr>methods = demoMethods, generators = demoGenerators, copiers = demoCopiers,
     constants = demoConstants, useZkCRD = True, IngressBaseUrl = ''example.org''\<rparr>"







text \<open>
  A rollout: the StatefulSet exists and has moved on to revision 2; two pods of revision 1
  are listed, neither ready, the solr container of neither has started. The delete of
  the first pod fails, every other write succeeds, and the safety policy selects no
  further pod and does not ask to retry.
\<close>

definition liveStatefulSet :: StatefulSet where
  "liveStatefulSet = ObjectMeta.extend (namedMeta demoCloud ''demo-solrcloud'')
     (StatefulSet.fields (Some [(''solr-cloud'', ''demo''), (''technology'', ''solr-cloud'')])
        ''demo-solrcloud-configmap md5-of-<solr>${hostPort:80}</solr>''
        \<lparr>stsReplicas = 2, stsReadyReplicas = 0, stsUpdateRevision = ''rev-2''\<rparr>)"

definition stuckPod0 :: Pod where
  "stuckPod0 = demoPod ''demo-solrcloud-0'' ''uid-0'' ''solr:8.0'' ''rev-1'' False (Some False)"

definition stuckPod1 :: Pod where
  "stuckPod1 = demoPod ''demo-solrcloud-1'' ''uid-1'' ''solr:8.0'' ''rev-1'' False None"

definition stuckPods :: "Pod list" where
  "stuckPods = [stuckPod0, stuckPod1]"

definition rolloutClient :: "unit Client" where
  "rolloutClient = quietClient\<lparr>
     solrClouds := scriptedApi (\<lambda>n. Inr demoCloud) (Inr [demoCloud]) (\<lambda>x. None),
     statefulSets := scriptedApi (\<lambda>n. Inr liveStatefulSet) (Inr [liveStatefulSet]) (\<lambda>x. None),
     pods := scriptedApi (\<lambda>n. Inl NotFound) (Inr stuckPods)
       (\<lambda>p. if Name p = ''demo-solrcloud-0'' then Some (OtherError ''connection refused'') else None)\<rparr>"

text \<open>The rollout again, with a claim list that cannot be read.\<close>

definition unreadableClaimsClient :: "unit Client" where
  "unreadableClaimsClient = rolloutClient\<lparr>persistentVolumeClaims :=
     scriptedApi (\<lambda>n. Inl NotFound) (Inl (OtherError ''etcdserver: request timed out'')) (\<lambda>x. None)\<rparr>"

text \<open>
  A settled cluster: three ready pods of the current revision, and a stored status that
  is what the aggregator computes from them. With the block of the StatefulSet lifted by
  an ensemble address, the pass has nothing to write.
\<close>

definition readyPods :: "Pod list" where
  "readyPods = [demoPod ''demo-solrcloud-0'' ''uid-0'' ''solr:9.0'' ''rev-2'' True (Some True),
                demoPod ''demo-solrcloud-1'' ''uid-1'' ''solr:9.0'' ''rev-2'' True (Some True),
                demoPod ''demo-solrcloud-2'' ''uid-2'' ''solr:9.0'' ''rev-2'' True (Some True)]"

definition steadyNode :: "string \<Rightarrow> SolrNodeStatus" where
  "steadyNode n = \<lparr>nsName = n, nsNodeName = ''worker-1'',
     nsInternalAddress = ''http://'' @ n @ ''.search'', nsExternalAddress = [], nsReady = True,
     nsVersion = ''9.0'', nsSpecUpToDate = True\<rparr>"

definition steadyStatus :: SolrCloudStatus where
  "steadyStatus = \<lparr>
     SolrNodes = Some [steadyNode ''demo-solrcloud-0'', steadyNode ''demo-solrcloud-1'',
                       steadyNode ''demo-solrcloud-2''],
     Replicas = 3, UpToDateNodes = 3, ReadyReplicas = 3, Version = ''9.0'', TargetVersion = [],
     InternalCommonAddress = ''http://demo-solrcloud-common.search'', ExternalCommonAddress = None,
     ZookeeperConnectionInfo = \<lparr>InternalConnectionString = ''zk:2181'',
       ExternalConnectionString = None, ChRoot = ''/''\<rparr>,
     BackupRestoreReady = False, UrlSchemeClusterProperty = False\<rparr>"

definition steadyCloud :: SolrCloud where
  "steadyCloud = demoCloud\<lparr>Status := steadyStatus,
     Finalizers := [''storage.finalizers.solr.apache.org'']\<rparr>"

definition steadyStatefulSet :: StatefulSet where
  "steadyStatefulSet = liveStatefulSet\<lparr>statefulSetStatus :=
     \<lparr>stsReplicas = 3, stsReadyReplicas = 3, stsUpdateRevision = ''rev-2''\<rparr>\<rparr>"

definition steadyClient :: "unit Client" where
  "steadyClient = quietClient\<lparr>
     solrClouds := scriptedApi (\<lambda>n. Inr steadyCloud) (Inr [steadyCloud]) (\<lambda>x. None),
     statefulSets := scriptedApi (\<lambda>n. Inr steadyStatefulSet) (Inr [steadyStatefulSet]) (\<lambda>x. None),
     pods := scriptedApi (\<lambda>n. Inl NotFound) (Inr readyPods) (\<lambda>x. None)\<rparr>"

text \<open>The cloud while its ensemble has no address yet: the connection string has no
  colon, which blocks the StatefulSet, and no StatefulSet exists.\<close>

definition pendingZkCloud :: SolrCloud where
  "pendingZkCloud = demoCloud\<lparr>Spec := demoSpec\<lparr>ZookeeperRef :=
     \<lparr>ConnectionInfo = Some \<lparr>InternalConnectionString = [], ExternalConnectionString = None,
                                ChRoot = []\<rparr>,
      ProvidedZookeeper = None\<rparr>\<rparr>\<rparr>"

definition pendingZkClient :: "unit Client" where
  "pendingZkClient = fiveClaimsClient\<lparr>
     solrClouds := scriptedApi (\<lambda>n. Inr pendingZkCloud) (Inr [pendingZkCloud]) (\<lambda>x. None)\<rparr>"

section \<open>The writes of the client calls\<close>

lemma clientGet_calls [simp]: "snd (snd (clientGet a ns n s)) = snd s"
  by (simp add: clientGet_def split: prod.splits)

lemma clientList_calls [simp]: "snd (snd (clientList a ns sel s)) = snd s"
  by (simp add: clientList_def split: prod.splits)

lemma clientCreate_calls [simp]: "snd (snd (clientCreate a w x s)) = snd s @ [CallCreate (w x)]"
  by (simp add: clientCreate_def split: prod.splits)

lemma clientUpdate_calls [simp]: "snd (snd (clientUpdate a w x s)) = snd s @ [CallUpdate (w x)]"
  by (simp add: clientUpdate_def split: prod.splits)

lemma clientDelete_calls [simp]: "snd (snd (clientDelete a w x pre s)) = snd s @ [CallDelete (w x) pre]"
  by (simp add: clientDelete_def split: prod.splits)

lemma clientStatusUpdate_calls [simp]:
  "snd (snd (clientStatusUpdate c x s)) = snd s @ [CallStatusUpdate (ObjSolrCloud x)]"
  by (simp add: clientStatusUpdate_def split: prod.splits)

lemma errFlow_calls [simp]: "snd (snd (errFlow r)) = snd (snd r)"
  by (cases r) (simp add: errFlow_def split: option.splits)

lemma clientGetD: "clientGet a ns n s = (r, s1) \<Longrightarrow> snd s1 = snd s"
  using clientGet_calls [of a ns n s] by simp

lemma clientListD: "clientList a ns sel s = (r, s1) \<Longrightarrow> snd s1 = snd s"
  using clientList_calls [of a ns sel s] by simp

lemma clientCreateD: "clientCreate a w x s = (r, s1) \<Longrightarrow> snd s1 = snd s @ [CallCreate (w x)]"
  using clientCreate_calls [of a w x s] by simp

lemma clientUpdateD: "clientUpdate a w x s = (r, s1) \<Longrightarrow> snd s1 = snd s @ [CallUpdate (w x)]"
  using clientUpdate_calls [of a w x s] by simp

lemma clientDeleteD: "clientDelete a w x pre s = (r, s1) \<Longrightarrow> snd s1 = snd s @ [CallDelete (w x) pre]"
  using clientDelete_calls [of a w x pre s] by simp

text \<open>The writes of two programs in sequence.\<close>

lemma andThen_calls:
  assumes f: "\<And>s. \<exists>xs. snd (snd (f s)) = snd s @ xs \<and> P xs"
    and g: "\<And>a s. \<exists>ys. snd (snd (g a s)) = snd s @ ys \<and> Q ys"
    and q: "Q []"
  shows "\<exists>xs ys. snd (snd (andThen f g s)) = snd s @ xs @ ys \<and> P xs \<and> Q ys"
proof -
  obtain r s1 where fs: "f s = (r, s1)" by (cases "f s")
  from f [of s] fs obtain xs where xs: "snd s1 = snd s @ xs" "P xs" by auto
  show ?thesis
  proof (cases r)
    case (Done a)
    from g [of a s1] obtain ys where ys: "snd (snd (g a s1)) = snd s1 @ ys" "Q ys" by auto
    have "snd (snd (andThen f g s)) = snd s @ xs @ ys"
      using fs Done xs ys by (simp add: andThen_def)
    with xs ys show ?thesis by blast
  next
    case (Exit e)
    have "snd (snd (andThen f g s)) = snd s @ xs @ []"
      using fs Exit xs by (simp add: andThen_def)
    with xs q show ?thesis by blast
  next
    case Crash
    have "snd (snd (andThen f g s)) = snd s @ xs @ []"
      using fs Crash xs by (simp add: andThen_def)
    with xs q show ?thesis by blast
  qed
qed

section \<open>The status aggregator: what the loop computes\<close>

lemma podVersion_Some:
  "podVersion m p = Some v \<Longrightarrow>
     (if length (ContainerStatuses p) > 0 \<and> v \<noteq> tag then [v] else []) = runningOtherVersions m tag [p]"
  by (cases "Containers p")
     (simp_all add: podVersion_def runningOtherVersions_def podImageVersion_def split: if_splits)

lemma statusLoopBody_version:
  "statusLoopBody m k sc ur p acc = Some acc' \<Longrightarrow> \<exists>v. podVersion m p = Some v"
  by (cases "podVersion m p") (simp_all add: statusLoopBody_def)

lemma statusLoopBody_otherVersions:
  assumes a: "statusLoopBody m k sc ur p acc = Some acc'"
  shows "otherVersions acc' = otherVersions acc @ runningOtherVersions m (SolrImageTag (Spec sc)) [p]"
proof -
  from statusLoopBody_version [OF a] obtain v where v: "podVersion m p = Some v" ..
  from a v have "otherVersions acc' = otherVersions acc
      @ (if length (ContainerStatuses p) > 0 \<and> v \<noteq> SolrImageTag (Spec sc) then [v] else [])"
    by (auto simp add: statusLoopBody_def Let_def)
  then show ?thesis using podVersion_Some [OF v] by simp
qed

lemma statusLoopBody_status:
  assumes a: "statusLoopBody m k sc ur p acc = Some acc'"
  shows "Replicas (newStatus acc') = Replicas (newStatus acc) \<and>
     ReadyReplicas (newStatus acc') = ReadyReplicas (newStatus acc) + (if podReady p then 1 else 0)"
proof -
  from statusLoopBody_version [OF a] obtain v where v: "podVersion m p = Some v" ..
  from a v show ?thesis
    by (auto simp add: statusLoopBody_def Let_def)
qed


lemma statusLoop_Cons_Some:
  "statusLoop m k sc ur (p # ps) acc = Some acc' \<Longrightarrow>
     \<exists>mid. statusLoopBody m k sc ur p acc = Some mid \<and> statusLoop m k sc ur ps mid = Some acc'"
  by (cases "statusLoopBody m k sc ur p acc") simp_all

lemma statusLoop_otherVersions:
  "statusLoop m k sc ur ps acc = Some acc' \<Longrightarrow>
     otherVersions acc' = otherVersions acc @ runningOtherVersions m (SolrImageTag (Spec sc)) ps"
proof (induction ps arbitrary: acc)
  case Nil
  then show ?case by (simp add: runningOtherVersions_def)
next
  case (Cons p ps)
  from statusLoop_Cons_Some [OF Cons.prems] obtain mid
    where b: "statusLoopBody m k sc ur p acc = Some mid"
      and l: "statusLoop m k sc ur ps mid = Some acc'" by blast
  show ?case
    using statusLoopBody_otherVersions [OF b] Cons.IH [OF l]
    by (simp add: runningOtherVersions_def)
qed

lemma statusLoop_status:
  "statusLoop m k sc ur ps acc = Some acc' \<Longrightarrow>
     Replicas (newStatus acc') = Replicas (newStatus acc) \<and>
     ReadyReplicas (newStatus acc') = ReadyReplicas (newStatus acc) + of_nat (length (filter podReady ps))"
proof (induction ps arbitrary: acc)
  case Nil
  then show ?case by simp
next
  case (Cons p ps)
  from statusLoop_Cons_Some [OF Cons.prems] obtain mid
    where b: "statusLoopBody m k sc ur p acc = Some mid"
      and l: "statusLoop m k sc ur ps mid = Some acc'" by blast
  show ?case
    using statusLoopBody_status [OF b] Cons.IH [OF l] by simp
qed


text \<open>When the aggregation falls through, the loop has run over all pods.\<close>

lemma aggregateStatus_Done:
  assumes "aggregateStatus m k sc st0 sts ps = Done (st, ood, nst, av)"
  shows "\<exists>acc. statusLoop m k sc (stsUpdateRevision sts) ps
           \<lparr>otherVersions = [], nodeNames = [], nodeStatusMap = Map.empty,
             backupRestoreReadyPods = 0,
             newStatus = st0\<lparr>Replicas := stsReplicas sts, UpToDateNodes := 0, ReadyReplicas := 0\<rparr>,
             outOfDatePods = [], outOfDatePodsNotStarted = [],
             availableUpdatedPodCount = 0\<rparr> = Some acc
         \<and> Replicas st = Replicas (newStatus acc)
         \<and> ReadyReplicas st = ReadyReplicas (newStatus acc)
         \<and> TargetVersion st = (if length (otherVersions acc) > 0 then SolrImageTag (Spec sc) else [])
         \<and> Version st = (case otherVersions acc of [] \<Rightarrow> SolrImageTag (Spec sc) | v # _ \<Rightarrow> v)
         \<and> ood = outOfDatePods acc \<and> nst = outOfDatePodsNotStarted acc"
  using assms
  by (simp add: aggregateStatus_def Let_def split: option.splits) auto

lemma reconcileCloudStatus_Done:
  assumes "reconcileCloudStatus podApi m k sc st0 sts s = (Done r, s')"
  shows "\<exists>ps. clientList podApi (Namespace sc) (podSelector m sc) s = (Inr ps, s')
            \<and> aggregateStatus m k sc st0 sts ps = Done r"
  using assms
  by (auto simp add: reconcileCloudStatus_def split: prod.splits sum.splits)

lemmas demo_defs = mixedPodApi_def mixedPods_def demoPod_def demoMethods_def demoConstants_def
  demoCloud_def demoSpec_def fullStatefulSetStatus_def zeroStatus_def scriptedApi_def emptyMeta_def
  tagOf_def

lemmas status_defs = reconcileCloudStatus_def clientList_def podSelector_def setLabel_def
  aggregateStatus_def statusLoopBody_def podVersion_def podReady_def PodReady_def ConditionTrue_def
  containerNotStarted_def podSpecUpToDate_def labelOf_def flowValue_def
  ObjectMeta.defs SolrCloud.defs Pod.defs

lemma mixed_run_Done:
  "\<exists>r. reconcileCloudStatus mixedPodApi demoMethods demoConstants demoCloud zeroStatus
          fullStatefulSetStatus ((), []) = (Done r, ((), []))"
  by (simp add: demo_defs status_defs Let_def)

text \<open>
  Claim C4, as amended. Whenever the status aggregation of a pass completes, the replica
  count of the new status is the replica count of the live StatefulSet's status, and the
  ready-replica count of the new status is the number of listed pods whose PodReady
  condition is true (counted in 32 bits): it is recomputed from the observed pods.
\<close>

theorem status_replica_counts:
  assumes "reconcileCloudStatus podApi m k sc st0 sts s = (Done (st, ood, nst, av), s')"
  shows "Replicas st = stsReplicas sts \<and>
         (\<exists>ps. fst (clientList podApi (Namespace sc) (podSelector m sc) s) = Inr ps \<and>
               ReadyReplicas st = of_nat (length (filter podReady ps)))"
proof -
  from reconcileCloudStatus_Done [OF assms] obtain ps
    where l: "clientList podApi (Namespace sc) (podSelector m sc) s = (Inr ps, s')"
      and a: "aggregateStatus m k sc st0 sts ps = Done (st, ood, nst, av)" by blast
  from aggregateStatus_Done [OF a] obtain acc
    where loop: "statusLoop m k sc (stsUpdateRevision sts) ps
           \<lparr>otherVersions = [], nodeNames = [], nodeStatusMap = Map.empty,
             backupRestoreReadyPods = 0,
             newStatus = st0\<lparr>Replicas := stsReplicas sts, UpToDateNodes := 0, ReadyReplicas := 0\<rparr>,
             outOfDatePods = [], outOfDatePodsNotStarted = [],
             availableUpdatedPodCount = 0\<rparr> = Some acc"
      and r: "Replicas st = Replicas (newStatus acc)"
      and rr: "ReadyReplicas st = ReadyReplicas (newStatus acc)" by blast
  from statusLoop_status [OF loop] r rr
  have "Replicas st = stsReplicas sts"
    and "ReadyReplicas st = of_nat (length (filter podReady ps))" by simp_all
  with l show ?thesis by simp
qed

theorem status_replica_counts_witness:
  "\<exists>st ood nst av.
     reconcileCloudStatus mixedPodApi demoMethods demoConstants demoCloud zeroStatus
       fullStatefulSetStatus ((), []) = (Done (st, ood, nst, av), ((), []))
     \<and> Replicas st = 3
     \<and> fst (clientList mixedPodApi (Namespace demoCloud) (podSelector demoMethods demoCloud) ((), []))
         = Inr mixedPods
     \<and> ReadyReplicas st = 1"
proof -
  from mixed_run_Done obtain st ood nst av
    where h: "reconcileCloudStatus mixedPodApi demoMethods demoConstants demoCloud zeroStatus
                fullStatefulSetStatus ((), []) = (Done (st, ood, nst, av), ((), []))"
    by (metis prod_cases4)
  have l: "fst (clientList mixedPodApi (Namespace demoCloud) (podSelector demoMethods demoCloud) ((), []))
             = Inr mixedPods"
    by (simp add: clientList_def mixedPodApi_def scriptedApi_def)
  have n: "length (filter podReady mixedPods) = 1"
    by (simp add: mixedPods_def demoPod_def podReady_def PodReady_def ConditionTrue_def
          ObjectMeta.defs Pod.defs)
  from status_replica_counts [OF h] l n
  have "Replicas st = 3" and "ReadyReplicas st = 1"
    by (simp_all add: fullStatefulSetStatus_def)
  with h l show ?thesis by blast
qed

text \<open>
  Claim C4 as stated fails for the ready-replica count: the StatefulSet reports three
  ready replicas, one of the two listed pods is ready, and the new status says one.
\<close>

theorem status_ready_replicas_counterexample:
  "map_option (ReadyReplicas \<circ> fst)
     (flowValue (fst (reconcileCloudStatus mixedPodApi demoMethods demoConstants demoCloud zeroStatus
        fullStatefulSetStatus ((), [])))) = Some 1
   \<and> stsReadyReplicas fullStatefulSetStatus = 3"
  by (simp add: demo_defs status_defs Let_def)

text \<open>
  Claim C5, as amended. Whenever the status aggregation of a pass completes: take, in the
  order in which the pod list was returned, the image versions of the pods that have
  container statuses and keep those that differ from the desired tag. If there is none,
  the target version is empty and the running version is the desired tag; otherwise the
  target version is the desired tag and the running version is the first of them.
\<close>

theorem status_versions:
  assumes "reconcileCloudStatus podApi m k sc st0 sts s = (Done (st, ood, nst, av), s')"
  shows "\<exists>ps. fst (clientList podApi (Namespace sc) (podSelector m sc) s) = Inr ps \<and>
           (case runningOtherVersions m (SolrImageTag (Spec sc)) ps of
              [] \<Rightarrow> TargetVersion st = [] \<and> Version st = SolrImageTag (Spec sc)
            | v # _ \<Rightarrow> TargetVersion st = SolrImageTag (Spec sc) \<and> Version st = v)"
proof -
  from reconcileCloudStatus_Done [OF assms] obtain ps
    where l: "clientList podApi (Namespace sc) (podSelector m sc) s = (Inr ps, s')"
      and a: "aggregateStatus m k sc st0 sts ps = Done (st, ood, nst, av)" by blast
  from aggregateStatus_Done [OF a] obtain acc
    where loop: "statusLoop m k sc (stsUpdateRevision sts) ps
           \<lparr>otherVersions = [], nodeNames = [], nodeStatusMap = Map.empty,
             backupRestoreReadyPods = 0,
             newStatus = st0\<lparr>Replicas := stsReplicas sts, UpToDateNodes := 0, ReadyReplicas := 0\<rparr>,
             outOfDatePods = [], outOfDatePodsNotStarted = [],
             availableUpdatedPodCount = 0\<rparr> = Some acc"
      and t: "TargetVersion st = (if length (otherVersions acc) > 0 then SolrImageTag (Spec sc) else [])"
      and v: "Version st = (case otherVersions acc of [] \<Rightarrow> SolrImageTag (Spec sc) | v # _ \<Rightarrow> v)"
    by blast
  from statusLoop_otherVersions [OF loop]
  have o: "otherVersions acc = runningOtherVersions m (SolrImageTag (Spec sc)) ps" by simp
  have "case runningOtherVersions m (SolrImageTag (Spec sc)) ps of
              [] \<Rightarrow> TargetVersion st = [] \<and> Version st = SolrImageTag (Spec sc)
            | v # _ \<Rightarrow> TargetVersion st = SolrImageTag (Spec sc) \<and> Version st = v"
    using t v unfolding o
    by (cases "runningOtherVersions m (SolrImageTag (Spec sc)) ps") simp_all
  with l show ?thesis by simp
qed

theorem status_versions_witness:
  "\<exists>st ood nst av.
     reconcileCloudStatus mixedPodApi demoMethods demoConstants demoCloud zeroStatus
       fullStatefulSetStatus ((), []) = (Done (st, ood, nst, av), ((), []))
     \<and> fst (clientList mixedPodApi (Namespace demoCloud) (podSelector demoMethods demoCloud) ((), []))
         = Inr mixedPods
     \<and> runningOtherVersions demoMethods ''9.0'' mixedPods = [''8.0'', ''7.0'']
     \<and> TargetVersion st = ''9.0'' \<and> Version st = ''8.0''"
proof -
  from mixed_run_Done obtain st ood nst av
    where h: "reconcileCloudStatus mixedPodApi demoMethods demoConstants demoCloud zeroStatus
                fullStatefulSetStatus ((), []) = (Done (st, ood, nst, av), ((), []))"
    by (metis prod_cases4)
  have l: "fst (clientList mixedPodApi (Namespace demoCloud) (podSelector demoMethods demoCloud) ((), []))
             = Inr mixedPods"
    by (simp add: clientList_def mixedPodApi_def scriptedApi_def)
  have o: "runningOtherVersions demoMethods ''9.0'' mixedPods = [''8.0'', ''7.0'']"
    by (simp add: runningOtherVersions_def podImageVersion_def mixedPods_def demoPod_def
          demoMethods_def tagOf_def ObjectMeta.defs Pod.defs)
  have tag: "SolrImageTag (Spec demoCloud) = ''9.0''"
    by (simp add: demoCloud_def demoSpec_def ObjectMeta.defs SolrCloud.defs)
  from status_versions [OF h] l o tag
  have "TargetVersion st = ''9.0'' \<and> Version st = ''8.0''" by simp
  with h l o show ?thesis by blast
qed

text \<open>
  Claim C5 as stated fails where the pod list is not returned in name order: the pods are
  listed as \<open>demo-solrcloud-1\<close> (version 8.0), \<open>demo-solrcloud-0\<close> (version 7.0), the
  desired tag is 9.0, and the running version of the new status is 8.0, while the first
  differing version in pod-name order is 7.0.
\<close>

theorem status_version_order_counterexample:
  "map_option (Version \<circ> fst)
     (flowValue (fst (reconcileCloudStatus mixedPodApi demoMethods demoConstants demoCloud zeroStatus
        fullStatefulSetStatus ((), [])))) = Some ''8.0''
   \<and> runningOtherVersions demoMethods ''9.0'' (sort_key Name mixedPods) = [''7.0'', ''8.0'']"
  by code_simp

section \<open>The storage lifecycle manager: which claims are deleted\<close>

lemma deletePVC_calls:
  "snd (deletePVC c p s) = snd s @ [CallDelete (ObjPVC (pvcDelete p)) None]"
  by (simp add: deletePVC_def clientDelete_def split: prod.splits)

lemma orphan_loop_calls:
  "snd (foldl (\<lambda>st pvcItem. if P pvcItem then deletePVC c pvcItem st else st) s items)
     = snd s @ map (\<lambda>p. CallDelete (ObjPVC (pvcDelete p)) None) (filter P items)"
  by (induction items arbitrary: s) (simp_all add: deletePVC_calls)

lemma getPVCList_calls: "snd (snd (getPVCList c cloud sel s)) = snd s"
  by (simp add: getPVCList_def clientList_def split: prod.splits)

lemma cleanupOrphanPVCs_calls:
  "callsOf (cleanupOrphanPVCs c k cloud sel s) =
     snd s @ (case fst (getPVCList c cloud sel s) of
                Inl err \<Rightarrow> []
              | Inr items \<Rightarrow> orphanDeletes k cloud items)"
proof -
  obtain r s' where g: "getPVCList c cloud sel s = (r, s')" by (cases "getPVCList c cloud sel s")
  have s': "snd s' = snd s" using getPVCList_calls [of c cloud sel s] g by simp
  show ?thesis
    using g s'
    by (cases r; cases "SpecReplicas (Spec cloud)")
       (simp_all add: cleanupOrphanPVCs_def callsOf_def orphanDeletes_def orphan_loop_calls)
qed

lemma pvcDelete_eq: "pvcDelete p = pvcDelete q \<longleftrightarrow> Name p = Name q \<and> Namespace p = Namespace q"
  by (auto simp add: pvcDelete_def ObjectMeta.defs PersistentVolumeClaim.defs emptyMeta_def)

text \<open>
  The orphan cleanup is what the storage finalizer runs when persistent storage with the
  Delete reclaim policy is configured and the object is not being deleted: at once when
  the finalizer is on the object, and after a successful update when it had to be added.
\<close>

lemma storage_finalizer_runs_cleanup:
  assumes "PersistentStorage (Spec cloud) = Some VolumeReclaimPolicyDelete"
    and "IsZero (DeletionTimestamp cloud)"
  shows "reconcileStorageFinalizer c k cloud sel s =
     (if ContainsString (Finalizers cloud) (SolrStorageFinalizer k)
      then andThen (cleanupOrphanPVCs c k cloud sel) (\<lambda>u st. (Done cloud, st)) s
      else (case clientUpdate (solrClouds c) ObjSolrCloud
                   (cloud\<lparr>Finalizers := Finalizers cloud @ [SolrStorageFinalizer k]\<rparr>) s of
              (Some err, s') \<Rightarrow> (Exit err, s')
            | (None, s') \<Rightarrow>
                andThen (cleanupOrphanPVCs c k
                           (cloud\<lparr>Finalizers := Finalizers cloud @ [SolrStorageFinalizer k]\<rparr>) sel)
                  (\<lambda>u st. (Done (cloud\<lparr>Finalizers := Finalizers cloud @ [SolrStorageFinalizer k]\<rparr>), st))
                  s'))"
  using assms by (simp add: reconcileStorageFinalizer_def Let_def)

text \<open>
  Claim C1, as amended. In the orphan-claim cleanup (which a pass runs when persistent
  storage with the Delete reclaim policy is configured and the object is not being
  deleted), when the claim list cannot be read nothing is deleted; otherwise every delete
  sent is for a listed claim, and a delete is sent for a listed claim iff the stored
  status counts as many ready replicas as replicas, the desired replica count is set, more
  claims are listed than replicas are desired, and the ordinal index of the claim is at
  least the desired replica count.
\<close>

theorem orphan_cleanup_deletes:
  "case fst (getPVCList c cloud sel s) of
     Inl err \<Rightarrow> callsOf (cleanupOrphanPVCs c k cloud sel s) = snd s
   | Inr items \<Rightarrow>
       (\<exists>ds. callsOf (cleanupOrphanPVCs c k cloud sel s) = snd s @ ds
          \<and> (\<forall>d \<in> set ds. \<exists>p \<in> set items. d = CallDelete (ObjPVC (pvcDelete p)) None)
          \<and> (\<forall>p \<in> set items.
                CallDelete (ObjPVC (pvcDelete p)) None \<in> set ds \<longleftrightarrow>
                  ReadyReplicas (Status cloud) = Replicas (Status cloud)
                  \<and> (\<exists>replicas. SpecReplicas (Spec cloud) = Some replicas
                        \<and> int (length items) > sint replicas
                        \<and> pvcOrdinal k (Name p) \<ge> sint replicas)))"
proof (cases "fst (getPVCList c cloud sel s)")
  case (Inl err)
  then show ?thesis by (simp add: cleanupOrphanPVCs_calls)
next
  case (Inr items)
  have c: "callsOf (cleanupOrphanPVCs c k cloud sel s) = snd s @ orphanDeletes k cloud items"
    using Inr by (simp add: cleanupOrphanPVCs_calls)
  have only: "\<forall>d \<in> set (orphanDeletes k cloud items).
                \<exists>p \<in> set items. d = CallDelete (ObjPVC (pvcDelete p)) None"
    by (auto simp add: orphanDeletes_def split: option.splits)
  have iff: "\<forall>p \<in> set items.
                CallDelete (ObjPVC (pvcDelete p)) None \<in> set (orphanDeletes k cloud items) \<longleftrightarrow>
                  ReadyReplicas (Status cloud) = Replicas (Status cloud)
                  \<and> (\<exists>replicas. SpecReplicas (Spec cloud) = Some replicas
                        \<and> int (length items) > sint replicas
                        \<and> pvcOrdinal k (Name p) \<ge> sint replicas)"
    by (cases "SpecReplicas (Spec cloud)")
       (auto simp add: orphanDeletes_def IsPVCOrphan_def pvcDelete_eq image_iff)
  from c only iff Inr show ?thesis by auto
qed

lemmas storage_demo_defs = fiveClaimsClient_def sparseClaimsClient_def quietClient_def
  scriptedApi_def fiveClaims_def sparseClaims_def demoClaim_def settledCloud_def demoCloud_def
  demoSpec_def zeroStatus_def emptyMeta_def demoConstants_def claimSelector_def

theorem orphan_cleanup_deletes_witness:
  "\<exists>ds. callsOf (cleanupOrphanPVCs fiveClaimsClient demoConstants settledCloud claimSelector ((), []))
          = ds
     \<and> fst (getPVCList fiveClaimsClient settledCloud claimSelector ((), [])) = Inr fiveClaims
     \<and> CallDelete (ObjPVC (pvcDelete (demoClaim ''data-demo-solrcloud-4''))) None \<in> set ds
     \<and> CallDelete (ObjPVC (pvcDelete (demoClaim ''data-demo-solrcloud-0''))) None \<notin> set ds"
proof -
  have l: "fst (getPVCList fiveClaimsClient settledCloud claimSelector ((), [])) = Inr fiveClaims"
    by (simp add: getPVCList_def clientList_def fiveClaimsClient_def scriptedApi_def quietClient_def)
  have m4: "demoClaim ''data-demo-solrcloud-4'' \<in> set fiveClaims"
    and m0: "demoClaim ''data-demo-solrcloud-0'' \<in> set fiveClaims"
    by (simp_all add: fiveClaims_def)
  have o4: "pvcOrdinal demoConstants (Name (demoClaim ''data-demo-solrcloud-4'')) = 4"
    and o0: "pvcOrdinal demoConstants (Name (demoClaim ''data-demo-solrcloud-0'')) = 0"
    by code_simp+
  have st: "ReadyReplicas (Status settledCloud) = Replicas (Status settledCloud)"
    and r: "SpecReplicas (Spec settledCloud) = Some 3"
    and n: "length fiveClaims = 5"
    by (simp_all add: settledCloud_def demoCloud_def demoSpec_def fiveClaims_def
          ObjectMeta.defs SolrCloud.defs)
  from orphan_cleanup_deletes [where c = fiveClaimsClient and cloud = settledCloud
      and sel = claimSelector and s = "((), [])" and k = demoConstants] l
  obtain ds where
    c: "callsOf (cleanupOrphanPVCs fiveClaimsClient demoConstants settledCloud claimSelector ((), []))
          = ds"
    and iff: "\<forall>p \<in> set fiveClaims.
                CallDelete (ObjPVC (pvcDelete p)) None \<in> set ds \<longleftrightarrow>
                  ReadyReplicas (Status settledCloud) = Replicas (Status settledCloud)
                  \<and> (\<exists>replicas. SpecReplicas (Spec settledCloud) = Some replicas
                        \<and> int (length fiveClaims) > sint replicas
                        \<and> pvcOrdinal demoConstants (Name p) \<ge> sint replicas)"
    by auto
  from iff m4 o4 st r n
  have d4: "CallDelete (ObjPVC (pvcDelete (demoClaim ''data-demo-solrcloud-4''))) None \<in> set ds"
    by simp
  from iff m0 o0 st r n
  have d0: "CallDelete (ObjPVC (pvcDelete (demoClaim ''data-demo-solrcloud-0''))) None \<notin> set ds"
    by simp
  from c l d4 d0 show ?thesis by blast
qed

text \<open>
  Claim C1 as stated fails where no more claims are listed than replicas are desired:
  three replicas are desired, the stored status counts three ready replicas of three, the
  claims with the ordinals 0 and 5 are listed, and the cleanup deletes nothing, although
  the ordinal 5 is at least 3.
\<close>

theorem orphan_cleanup_counterexample:
  "callsOf (cleanupOrphanPVCs sparseClaimsClient demoConstants settledCloud claimSelector ((), [])) = []
   \<and> fst (getPVCList sparseClaimsClient settledCloud claimSelector ((), [])) = Inr sparseClaims
   \<and> pvcOrdinal demoConstants (Name (demoClaim ''data-demo-solrcloud-5'')) = 5
   \<and> SpecReplicas (Spec settledCloud) = Some 3
   \<and> ReadyReplicas (Status settledCloud) = Replicas (Status settledCloud)"
  by code_simp

section \<open>The TLS certificate coordinator: the secret goes first\<close>





lemma ensureKeystoreSecret_calls:
  "\<exists>xs. snd (snd (ensureKeystoreSecret c cfg inst s)) = snd s @ xs \<and> (\<forall>cl \<in> set xs. isCreate cl)"
  by (auto simp add: ensureKeystoreSecret_def Let_def isCreate_def
        split: prod.splits sum.splits dest!: clientGetD)

lemma ensureSelfSignedIssuer_calls:
  "\<exists>xs. snd (snd (ensureSelfSignedIssuer c cfg inst ac s)) = snd s @ xs \<and> (\<forall>cl \<in> set xs. isCreate cl)"
  by (auto simp add: ensureSelfSignedIssuer_def Let_def isCreate_def
        split: prod.splits sum.splits dest!: clientGetD)

lemma isCertificateReadyD: "isCertificateReady c cert s = (r, s1) \<Longrightarrow> snd s1 = snd s"
  by (auto simp add: isCertificateReady_def split: prod.splits sum.splits dest!: clientGetD)







section \<open>The coordination-ensemble resolver: its configuration errors\<close>










section \<open>The rolling update coordinator\<close>

lemma tightenRequeue_bounds:
  "0 < RequeueAfter (tightenRequeue True r) \<and> RequeueAfter (tightenRequeue True r) \<le> Second * 15"
  by (simp add: tightenRequeue_def Second_def)

lemma tightenRequeue_never_shortens:
  "0 < RequeueAfter r \<Longrightarrow> RequeueAfter r \<le> Second * 15 \<Longrightarrow> tightenRequeue b r = r"
  by (simp add: tightenRequeue_def)

lemma deletePodsForUpdate_calls:
  "snd (snd (deletePodsForUpdate c ps start)) =
     snd (snd start) @ map (\<lambda>p. CallDelete (ObjPod p) (Some (UID p))) ps"
  by (induction ps arbitrary: start) (simp_all add: deletePodsForUpdate_def)

lemma deletePodsForUpdate_last:
  "fst (deletePodsForUpdate c (ps @ [p]) start) =
     fst (clientDelete (pods c) ObjPod p (Some (UID p)) (snd (deletePodsForUpdate c ps start)))"
  by (simp add: deletePodsForUpdate_def)

lemma managedUpdate_calls:
  assumes "SpecReplicas (Spec inst) = Some replicas"
  shows "callsOf (managedUpdate c inst st ood nst av r s) =
     snd s @ (if UpdateStrategyMethod (Spec inst) = ManagedUpdate \<and> (ood \<noteq> [] \<or> nst \<noteq> [])
              then map (\<lambda>p. CallDelete (ObjPod p) (Some (UID p)))
                     (nst @ fst (fst (DeterminePodsSafeToUpdate c inst ood (sint replicas)
                                        (sint (ReadyReplicas st)) av (int (length nst)) (fst s))))
              else [])"
proof -
  obtain sel retry w where d: "DeterminePodsSafeToUpdate c inst ood (sint replicas)
                                        (sint (ReadyReplicas st)) av (int (length nst)) (fst s) = ((sel, retry), w)"
    by (metis prod.exhaust)
  obtain e s' where l: "deletePodsForUpdate c (nst @ sel) (None, (w, snd s)) = (e, s')"
    by (metis prod.exhaust)
  have s': "snd s' = snd s @ map (\<lambda>p. CallDelete (ObjPod p) (Some (UID p))) (nst @ sel)"
    using deletePodsForUpdate_calls [of c "nst @ sel" "(None, (w, snd s))"] l by simp
  show ?thesis
  proof (cases "UpdateStrategyMethod (Spec inst) = ManagedUpdate")
    case False
    with assms show ?thesis by (simp add: managedUpdate_def callsOf_def Let_def)
  next
    case True
    show ?thesis
    proof (cases "ood = [] \<and> nst = []")
      case True
      with assms show ?thesis by (simp add: managedUpdate_def callsOf_def Let_def)
    next
      case False
      then have pos: "0 < int (length ood) + int (length nst)"
        by (cases ood; cases nst) auto
      have "managedUpdate c inst st ood nst av r s = (Done (tightenRequeue (e \<noteq> None \<or> retry) r), s')"
        using assms \<open>UpdateStrategyMethod (Spec inst) = ManagedUpdate\<close> pos d l
        by (simp add: managedUpdate_def Let_def)
      with False \<open>UpdateStrategyMethod (Spec inst) = ManagedUpdate\<close> d s'
      show ?thesis by (auto simp add: callsOf_def)
    qed
  qed
qed






text \<open>
  Claim C7 fails on the code where a pod deletion fails and a later one succeeds. In this
  pass the pods \<open>demo-solrcloud-0\<close> and \<open>demo-solrcloud-1\<close> are deleted for the update,
  the first delete returns an error, the second succeeds, and the safety policy does not
  ask to retry: the loop has overwritten the error, and the pass ends with no error and
  no requeue at all.
\<close>

theorem failed_delete_leaves_no_requeue:
  "fst (Reconcile rolloutClient demoConfig (''search'', ''demo'') ((), []))
     = Done \<lparr>Requeue = False, RequeueAfter = 0\<rparr>
   \<and> filter isPodDelete (callsOf (Reconcile rolloutClient demoConfig (''search'', ''demo'') ((), [])))
       = [CallDelete (ObjPod stuckPod0) (Some ''uid-0''), CallDelete (ObjPod stuckPod1) (Some ''uid-1'')]
   \<and> fst (clientDelete (pods rolloutClient) ObjPod stuckPod0 (Some ''uid-0'') ((), []))
       = Some (OtherError ''connection refused'')"
  by code_simp

theorem failed_delete_leaves_no_requeue_witness:
  "passResult (fst (Reconcile rolloutClient demoConfig (''search'', ''demo'') ((), [])))
     = Some (\<lparr>Requeue = False, RequeueAfter = 0\<rparr>, None)"
  using failed_delete_leaves_no_requeue by (simp add: passResult_def)

text \<open>
  What does hold of lines 401 to 405: the delay is tightened when the last delete of the
  loop failed or the policy asks to retry, to a positive delay of at most fifteen
  seconds, and a pending positive delay of at most fifteen seconds is left as it is.
\<close>

lemma managedUpdate_requeue:
  assumes "SpecReplicas (Spec inst) = Some replicas"
    and "UpdateStrategyMethod (Spec inst) = ManagedUpdate" and "ood \<noteq> [] \<or> nst \<noteq> []"
    and "DeterminePodsSafeToUpdate c inst ood (sint replicas) (sint (ReadyReplicas st)) av
           (int (length nst)) (fst s) = ((sel, retryLater), w)"
  shows "fst (managedUpdate c inst st ood nst av r s) =
           Done (tightenRequeue
                   (fst (deletePodsForUpdate c (nst @ sel) (None, (w, snd s))) \<noteq> None \<or> retryLater) r)"
proof -
  from assms(3) have pos: "0 < int (length ood) + int (length nst)"
    by (cases ood; cases nst) auto
  obtain e s' where l: "deletePodsForUpdate c (nst @ sel) (None, (w, snd s)) = (e, s')"
    by (metis prod.exhaust)
  show ?thesis using assms(1,2,4) pos l by (simp add: managedUpdate_def Let_def)
qed

section \<open>The writes of a whole pass\<close>

text \<open>
  Every step up to the StatefulSet writes to services, config maps, secrets, issuers,
  certificates, ensembles and StatefulSets only: never to a claim, to the SolrCloud object or
  to its status.
\<close>

lemma emitsOnlyI:
  "(\<And>s. \<exists>new. snd (snd (f s)) = snd s @ new \<and> (\<forall>cl \<in> set new. A cl)) \<Longrightarrow> emitsOnly A f"
  unfolding emitsOnly_def by blast

lemma emitsOnlyD:
  "emitsOnly A f \<Longrightarrow> \<exists>new. snd (snd (f s)) = snd s @ new \<and> (\<forall>cl \<in> set new. A cl)"
  unfolding emitsOnly_def by blast

lemma emitsOnly_pure: "emitsOnly A (\<lambda>s. (x, s))"
  by (simp add: emitsOnly_def)

lemma emitsOnly_mono: "emitsOnly A f \<Longrightarrow> (\<And>cl. A cl \<Longrightarrow> B cl) \<Longrightarrow> emitsOnly B f"
  unfolding emitsOnly_def by blast

lemma emitsOnly_andThen:
  assumes "emitsOnly A f" and "\<And>a. emitsOnly A (g a)"
  shows "emitsOnly A (andThen f g)"
proof (rule emitsOnlyI)
  fix s
  from andThen_calls [where f = f and g = g and P = "\<lambda>xs. \<forall>cl \<in> set xs. A cl"
      and Q = "\<lambda>xs. \<forall>cl \<in> set xs. A cl" and s = s]
    emitsOnlyD [OF assms(1)] emitsOnlyD [OF assms(2)]
  obtain xs ys where "snd (snd (andThen f g s)) = snd s @ xs @ ys"
    and "\<forall>cl \<in> set xs. A cl" and "\<forall>cl \<in> set ys. A cl"
    by auto
  then show "\<exists>new. snd (snd (andThen f g s)) = snd s @ new \<and> (\<forall>cl \<in> set new. A cl)"
    by (intro exI [of _ "xs @ ys"]) auto
qed

lemma returning_calls [simp]: "snd (snd (returning r f s)) = snd (snd (f s))"
  by (simp add: returning_def split: prod.splits flow.splits)

lemma emitsOnly_returning: "emitsOnly A f \<Longrightarrow> emitsOnly A (returning r f)"
  by (simp add: emitsOnly_def)

lemma createOrUpdate_emits:
  assumes "\<And>x. A (CallCreate (w x))" and "\<And>x. A (CallUpdate (w x))"
  shows "emitsOnly A (createOrUpdate a w cp d)"
  using assms
  unfolding emitsOnly_def createOrUpdate_def andThen_def errFlow_def
  by (auto split: prod.splits sum.splits option.splits flow.splits
        dest!: clientGetD clientCreateD clientUpdateD)

lemma ownedThenSynced_emits:
  assumes "\<And>x. A (CallCreate (w x))" and "\<And>x. A (CallUpdate (w x))"
  shows "emitsOnly A (ownedThenSynced k inst a w cp d)"
proof (cases "SetControllerReference k inst d")
  case (Inl err)
  then have "ownedThenSynced k inst a w cp d = (\<lambda>s. (Exit err, s))"
    by (simp add: ownedThenSynced_def fun_eq_iff)
  then show ?thesis by (simp add: emitsOnly_pure)
next
  case (Inr desired)
  then have "ownedThenSynced k inst a w cp d =
               andThen (createOrUpdate a w cp desired) (\<lambda>r st. (Done (desired, r), st))"
    by (simp add: ownedThenSynced_def fun_eq_iff)
  moreover have "emitsOnly A (createOrUpdate a w cp desired)"
    by (rule createOrUpdate_emits) (rule assms)+
  ultimately show ?thesis
    by (simp only:) (intro emitsOnly_andThen emitsOnly_pure, assumption)
qed

lemma benign_simps [simp]:
  "benign (CallCreate x)"
  "benign (CallUpdate (ObjService sv))"
  "benign (CallUpdate (ObjConfigMap cm))"
  "benign (CallUpdate (ObjSecret se))"
  "benign (CallUpdate (ObjCertificate ce))"
  "benign (CallUpdate (ObjZookeeperCluster zk))"
  "benign (CallUpdate (ObjStatefulSet ss))"
  "benign (CallUpdate (ObjIngress ig))"
  "benign (CallDelete (ObjSecret se) pre)"
  "benign (CallDelete (ObjPod po) pre)"
  by (simp_all add: benign_def isPVCDelete_def isSolrCloudUpdate_def isStatusUpdate_def)

lemma reconcileCommonService_emits: "emitsOnly benign (reconcileCommonService c cfg inst)"
  unfolding reconcileCommonService_def
  by (intro emitsOnly_andThen ownedThenSynced_emits emitsOnly_pure) simp_all

lemma reconcileNodeService_emits: "emitsOnly benign (reconcileNodeService c cfg inst n)"
  unfolding reconcileNodeService_def
  by (intro emitsOnly_andThen ownedThenSynced_emits emitsOnly_pure) simp_all

lemma nodeServicesLoop_calls:
  "\<exists>new. snd (snd (nodeServicesLoop c cfg inst names acc s)) = snd s @ new \<and> (\<forall>cl \<in> set new. benign cl)"
proof (induction names arbitrary: acc s)
  case Nil
  then show ?case by simp
next
  case (Cons n names)
  obtain r s1 where f: "reconcileNodeService c cfg inst n s = (r, s1)" by (metis prod.exhaust)
  from emitsOnlyD [OF reconcileNodeService_emits, of c cfg inst n s] f
  obtain xs where xs: "snd s1 = snd s @ xs" "\<forall>cl \<in> set xs. benign cl" by auto
  show ?case
  proof (cases r)
    case (Done ip)
    show ?thesis
    proof (cases "External (Spec inst)")
      case None
      with f Done xs show ?thesis by simp
    next
      case (Some ext)
      let ?acc = "if UseExternalAddress ext
                  then (if ip = [] then (fst acc, True)
                        else (setLabel (AdvertisedNodeHost (methods cfg) inst n) ip (fst acc), snd acc))
                  else acc"
      from Cons.IH [of ?acc s1] obtain ys
        where ys: "snd (snd (nodeServicesLoop c cfg inst names ?acc s1)) = snd s1 @ ys"
          "\<forall>cl \<in> set ys. benign cl" by auto
      have "snd (snd (nodeServicesLoop c cfg inst (n # names) acc s)) = snd s @ (xs @ ys)"
        using f Done Some ys xs by simp
      with xs ys show ?thesis by (intro exI [of _ "xs @ ys"]) auto
    qed
  next
    case (Exit e)
    with f xs show ?thesis by simp
  next
    case Crash
    with f xs show ?thesis by simp
  qed
qed

lemma reconcileNodeServices_emits: "emitsOnly benign (reconcileNodeServices c cfg inst names)"
proof (rule emitsOnlyI)
  fix s
  show "\<exists>new. snd (snd (reconcileNodeServices c cfg inst names s)) = snd s @ new
              \<and> (\<forall>cl \<in> set new. benign cl)"
    using nodeServicesLoop_calls [of c cfg inst names "([], False)" s]
    by (simp add: reconcileNodeServices_def)
qed

lemma reconcileHeadlessService_emits: "emitsOnly benign (reconcileHeadlessService c cfg inst)"
proof (cases "UsesHeadlessService (methods cfg) inst")
  case True
  then have "reconcileHeadlessService c cfg inst =
      andThen (ownedThenSynced (constants cfg) inst (services c) ObjService
                      (CopyServiceFields (copiers cfg)) (GenerateHeadlessService (generators cfg) inst))
             (\<lambda>r st. (Done (), st))"
    by (simp add: reconcileHeadlessService_def fun_eq_iff)
  then show ?thesis
    by (simp add: emitsOnly_andThen ownedThenSynced_emits emitsOnly_pure)
next
  case False
  then have "reconcileHeadlessService c cfg inst = (\<lambda>s. (Done (), s))"
    by (simp add: reconcileHeadlessService_def fun_eq_iff)
  then show ?thesis by (simp add: emitsOnly_pure)
qed

lemma reconcileConfigMap_emits: "emitsOnly benign (reconcileConfigMap c cfg inst)"
proof (cases "ConfigMapOptions (Spec inst) \<noteq> None
              \<and> (case ConfigMapOptions (Spec inst) of None \<Rightarrow> [] | Some n \<Rightarrow> n) \<noteq> []")
  case True
  then show ?thesis
    unfolding emitsOnly_def reconcileConfigMap_def Let_def
    by (auto split: prod.splits sum.splits option.splits dest!: clientGetD)
next
  case False
  then have "reconcileConfigMap c cfg inst =
     andThen (ownedThenSynced (constants cfg) inst (configMaps c) ObjConfigMap
                         (CopyConfigMapFields (copiers cfg)) (GenerateConfigMap (generators cfg) inst))
                (\<lambda>r st. (Done (ConfigMapName (methods cfg) inst,
                                 (case snd r of
                                    Created \<Rightarrow> md5hex (constants cfg) (dataOf (fst r) ''solr.xml'')
                                  | Updated foundConfigMap \<Rightarrow>
                                      md5hex (constants cfg) (dataOf foundConfigMap ''solr.xml'')
                                  | Unchanged foundConfigMap \<Rightarrow> [])), st))"
    by (auto simp add: reconcileConfigMap_def Let_def fun_eq_iff)
  then show ?thesis
    by (simp add: emitsOnly_andThen ownedThenSynced_emits emitsOnly_pure)
qed

lemma reconcileZk_emits: "emitsOnly benign (reconcileZk c cfg inst st0)"
  unfolding emitsOnly_def reconcileZk_def andThen_def errFlow_def
  by (auto split: prod.splits sum.splits option.splits flow.splits
        dest!: clientGetD clientCreateD clientUpdateD)

lemma isCreate_benign: "isCreate cl \<Longrightarrow> benign cl"
  by (cases cl) (simp_all add: isCreate_def)

lemma ensureKeystoreSecret_emits: "emitsOnly benign (ensureKeystoreSecret c cfg inst)"
  unfolding emitsOnly_def using ensureKeystoreSecret_calls [of c cfg inst] isCreate_benign by blast

lemma ensureSelfSignedIssuer_emits: "emitsOnly benign (ensureSelfSignedIssuer c cfg inst ac)"
  unfolding emitsOnly_def using ensureSelfSignedIssuer_calls [of c cfg inst ac] isCreate_benign by blast

lemma afterCertificateReady_emits:
  "emitsOnly benign (afterCertificateReady c cfg inst cert foundCert foundTLSSecret)"
  unfolding emitsOnly_def afterCertificateReady_def
  by (auto split: prod.splits sum.splits option.splits
        dest!: clientDeleteD clientUpdateD)

lemma reconcileCertificate_emits: "emitsOnly benign (reconcileCertificate c cfg inst)"
proof (rule emitsOnlyI)
  fix s
  let ?cert = "GenerateCertificate (generators cfg) inst"
  obtain r s1 where g: "clientGet (certificates c) (Namespace ?cert) (Name ?cert) s = (r, s1)"
    by (metis prod.exhaust)
  have s1: "snd s1 = snd s" using clientGetD [OF g] .
  show "\<exists>new. snd (snd (reconcileCertificate c cfg inst s)) = snd s @ new \<and> (\<forall>cl \<in> set new. benign cl)"
  proof (cases r)
    case (Inl err)
    then show ?thesis using g s1
      by (auto simp add: reconcileCertificate_def Let_def andThen_def errFlow_def
            split: sum.splits prod.splits option.splits dest!: clientCreateD)
  next
    case (Inr foundCert)
    obtain r2 s2 where i: "isCertificateReady c foundCert s1 = (r2, s2)" by (metis prod.exhaust)
    have s2: "snd s2 = snd s" using isCertificateReadyD [OF i] s1 by simp
    show ?thesis
    proof (cases r2)
      case None
      then show ?thesis using g Inr i s2 by (simp add: reconcileCertificate_def Let_def)
    next
      case (Some secret)
      from emitsOnlyD [OF afterCertificateReady_emits, of c cfg inst ?cert foundCert secret s2] s2
      show ?thesis using g Inr i Some by (simp add: reconcileCertificate_def Let_def)
    qed
  qed
qed

lemma reconcileAutoCreateTLS_emits: "emitsOnly benign (reconcileAutoCreateTLS c cfg inst)"
proof (rule emitsOnlyI)
  fix s
  show "\<exists>new. snd (snd (reconcileAutoCreateTLS c cfg inst s)) = snd s @ new \<and> (\<forall>cl \<in> set new. benign cl)"
  proof (cases "SolrTLS (Spec inst)")
    case None
    then show ?thesis by (simp add: reconcileAutoCreateTLS_def)
  next
    case (Some tls)
    note tls = this
    show ?thesis
    proof (cases "AutoCreate tls")
      case None
      with tls show ?thesis by (simp add: reconcileAutoCreateTLS_def)
    next
      case (Some ac)
      note ac = this
      let ?full = "andThen (ensureKeystoreSecret c cfg inst)
                     (\<lambda>u. andThen (ensureSelfSignedIssuer c cfg inst ac)
                             (\<lambda>u. reconcileCertificate c cfg inst))"
      have full: "emitsOnly benign ?full"
        by (intro emitsOnly_andThen ensureKeystoreSecret_emits ensureSelfSignedIssuer_emits
              reconcileCertificate_emits)
      obtain r s1 where g: "clientGet (certificates c) (Namespace inst) (certName ac) s = (r, s1)"
        by (metis prod.exhaust)
      have s1: "snd s1 = snd s" using clientGetD [OF g] .
      show ?thesis
      proof (cases r)
        case (Inl err)
        from emitsOnlyD [OF full, of s1] s1
        show ?thesis using tls ac g Inl by (simp add: reconcileAutoCreateTLS_def Let_def)
      next
        case (Inr foundCert)
        obtain r2 s2 where i: "isCertificateReady c foundCert s1 = (r2, s2)" by (metis prod.exhaust)
        have s2: "snd s2 = snd s" using isCertificateReadyD [OF i] s1 by simp
        show ?thesis
        proof (cases r2)
          case None
          from emitsOnlyD [OF full, of s2] s2
          show ?thesis using tls ac g Inr i None by (simp add: reconcileAutoCreateTLS_def Let_def)
        next
          case (Some secret)
          from emitsOnlyD [OF afterCertificateReady_emits, of c cfg inst
              "GenerateCertificate (generators cfg) inst" foundCert secret s2] s2
          show ?thesis using tls ac g Inr i Some by (simp add: reconcileAutoCreateTLS_def Let_def)
        qed
      qed
    qed
  qed
qed

lemma reconcileTLSCertificate_emits: "emitsOnly benign (reconcileTLSCertificate c cfg inst tls r)"
proof (rule emitsOnlyI)
  fix s
  from emitsOnlyD [OF reconcileAutoCreateTLS_emits, of c cfg inst s]
  show "\<exists>new. snd (snd (reconcileTLSCertificate c cfg inst tls r s)) = snd s @ new
              \<and> (\<forall>cl \<in> set new. benign cl)"
    by (cases "AutoCreate tls"; cases "reconcileAutoCreateTLS c cfg inst s";
        cases "fst (reconcileAutoCreateTLS c cfg inst s)")
       (auto simp add: reconcileTLSCertificate_def)
qed

lemma reconcileTLSSecret_calls [simp]: "snd (snd (reconcileTLSSecret c inst tls r s)) = snd s"
  by (auto simp add: reconcileTLSSecret_def split: prod.splits sum.splits dest!: clientGetD)

lemma reconcileUrlScheme_calls [simp]: "snd (snd (reconcileUrlScheme c cfg inst st0 r s)) = snd s"
  by (simp add: reconcileUrlScheme_def Let_def split: prod.splits option.splits)

lemma reconcileTLS_emits: "emitsOnly benign (reconcileTLS c cfg inst st0 r)"
proof (cases "SolrTLS (Spec inst)")
  case None
  then have "reconcileTLS c cfg inst st0 r = (\<lambda>s. (Done (inst, st0, False), s))"
    by (simp add: reconcileTLS_def fun_eq_iff)
  then show ?thesis by (simp add: emitsOnly_pure)
next
  case (Some tls)
  then have "reconcileTLS c cfg inst st0 r =
          andThen (reconcileTLSCertificate c cfg inst tls r)
            (\<lambda>u. andThen (reconcileTLSSecret c inst tls r)
                    (\<lambda>x. andThen (reconcileUrlScheme c cfg (fst x) st0 r)
                            (\<lambda>st s'. (Done (fst x, st, snd x), s'))))"
    by (simp add: reconcileTLS_def fun_eq_iff)
  moreover have "\<And>x. emitsOnly benign (reconcileUrlScheme c cfg x st0 r)"
    by (simp add: emitsOnly_def)
  moreover have "emitsOnly benign (reconcileTLSSecret c inst tls r)"
    by (simp add: emitsOnly_def)
  ultimately show ?thesis
    by (simp only:) (intro emitsOnly_andThen reconcileTLSCertificate_emits emitsOnly_pure; assumption)
qed

lemma reconcileStatefulSet_emits:
  "emitsOnly benign (reconcileStatefulSet c cfg inst st0 hosts cm md5 needs block)"
  unfolding emitsOnly_def reconcileStatefulSet_def
  by (auto split: prod.splits sum.splits option.splits
        dest!: clientGetD clientCreateD clientUpdateD)

lemma reconcileFront_emits: "emitsOnly benign (reconcileFront c cfg inst)"
  unfolding reconcileFront_def Let_def
  by (intro emitsOnly_andThen emitsOnly_returning reconcileZk_emits reconcileCommonService_emits
        reconcileNodeServices_emits reconcileHeadlessService_emits reconcileConfigMap_emits
        reconcileTLS_emits reconcileStatefulSet_emits emitsOnly_pure)

lemma andThen_DoneE:
  assumes "andThen f g s = (Done b, s2)"
  obtains a s1 where "f s = (Done a, s1)" and "g a s1 = (Done b, s2)"
  using assms by (auto simp add: andThen_def split: prod.splits flow.splits)

lemma returning_DoneD: "returning r f s = (Done a, s1) \<Longrightarrow> f s = (Done a, s1)"
  by (auto simp add: returning_def split: prod.splits flow.splits)

lemma andThen_assoc: "andThen (andThen f g) h = andThen f (\<lambda>a. andThen (g a) h)"
  by (auto simp add: andThen_def fun_eq_iff split: prod.splits flow.splits)

subsection \<open>The middle of the pass\<close>

lemma reconcileStorage_skipped: "reconcileStorage c cfg i [] s = (Done i, s)"
  by (simp add: reconcileStorage_def)

lemma reconcileCloudStatus_calls [simp]:
  "snd (snd (reconcileCloudStatus a m k sc st0 sts s)) = snd s"
  by (auto simp add: reconcileCloudStatus_def split: prod.splits sum.splits dest!: clientListD)

lemma reconcileCloudStatus_emits: "emitsOnly A (reconcileCloudStatus a m k sc st0 sts)"
  by (rule emitsOnlyI) simp

lemma managedUpdate_emits: "emitsOnly benign (managedUpdate c i st ood nst av r)"
proof (rule emitsOnlyI)
  fix s
  show "\<exists>new. snd (snd (managedUpdate c i st ood nst av r s)) = snd s @ new
              \<and> (\<forall>cl \<in> set new. benign cl)"
  proof (cases "SpecReplicas (Spec i)")
    case None
    then show ?thesis by (simp add: managedUpdate_def)
  next
    case (Some replicas)
    from managedUpdate_calls [OF Some, of c st ood nst av r s]
    show ?thesis by (auto simp add: callsOf_def)
  qed
qed

lemma reconcileIngress_emits: "emitsOnly benign (reconcileIngress c cfg i names)"
proof (cases "External (Spec i)")
  case None
  then have "reconcileIngress c cfg i names = (\<lambda>s. (Done (), s))"
    by (simp add: reconcileIngress_def fun_eq_iff)
  then show ?thesis by (simp add: emitsOnly_pure)
next
  case (Some ext)
  show ?thesis
  proof (cases "Method ext = IngressMethod")
    case True
    with Some have "reconcileIngress c cfg i names =
        andThen (ownedThenSynced (constants cfg) i (ingresses c) ObjIngress
                          (CopyIngressFields (copiers cfg))
                          (GenerateIngress (generators cfg) i names (IngressBaseUrl cfg)))
                 (\<lambda>r st. (Done (), st))"
      by (simp add: reconcileIngress_def fun_eq_iff)
    then show ?thesis
      by (simp add: emitsOnly_andThen ownedThenSynced_emits emitsOnly_pure)
  next
    case False
    with Some have "reconcileIngress c cfg i names = (\<lambda>s. (Done (), s))"
      by (simp add: reconcileIngress_def fun_eq_iff)
    then show ?thesis by (simp add: emitsOnly_pure)
  qed
qed

lemma storageWrite_simps [simp]:
  "storageWrite (CallDelete (ObjPVC p) pre)" "storageWrite (CallUpdate (ObjSolrCloud x))"
  by (simp_all add: storageWrite_def isPVCDelete_def isSolrCloudUpdate_def)

lemma cleanupOrphanPVCs_emits: "emitsOnly storageWrite (cleanupOrphanPVCs c k cloud sel)"
proof (rule emitsOnlyI)
  fix s
  from cleanupOrphanPVCs_calls [of c k cloud sel s]
  show "\<exists>new. snd (snd (cleanupOrphanPVCs c k cloud sel s)) = snd s @ new
              \<and> (\<forall>cl \<in> set new. storageWrite cl)"
    by (auto simp add: callsOf_def orphanDeletes_def split: sum.splits option.splits)
qed

lemma all_loop_calls:
  "snd (foldl (\<lambda>st pvcItem. deletePVC c pvcItem st) s items)
     = snd s @ map (\<lambda>p. CallDelete (ObjPVC (pvcDelete p)) None) items"
  by (induction items arbitrary: s) (simp_all add: deletePVC_calls)

lemma cleanUpAllPVCs_emits: "emitsOnly storageWrite (cleanUpAllPVCs c cloud sel)"
proof (rule emitsOnlyI)
  fix s
  obtain r s1 where g: "getPVCList c cloud sel s = (r, s1)" by (metis prod.exhaust)
  have s1: "snd s1 = snd s" using getPVCList_calls [of c cloud sel s] g by simp
  show "\<exists>new. snd (snd (cleanUpAllPVCs c cloud sel s)) = snd s @ new
              \<and> (\<forall>cl \<in> set new. storageWrite cl)"
    using g s1 by (cases r) (auto simp add: cleanUpAllPVCs_def all_loop_calls)
qed

lemma removeStorageFinalizer_emits: "emitsOnly storageWrite (removeStorageFinalizer c k cloud)"
  unfolding emitsOnly_def removeStorageFinalizer_def Let_def
  by (auto split: prod.splits option.splits dest!: clientUpdateD)

lemma reconcileStorageFinalizer_emits:
  "emitsOnly storageWrite (reconcileStorageFinalizer c k cloud sel)"
proof (rule emitsOnlyI)
  fix s
  let ?cloud' = "cloud\<lparr>Finalizers := Finalizers cloud @ [SolrStorageFinalizer k]\<rparr>"
  obtain e s1 where u: "clientUpdate (solrClouds c) ObjSolrCloud ?cloud' s = (e, s1)"
    by (metis prod.exhaust)
  have s1: "snd s1 = snd s @ [CallUpdate (ObjSolrCloud ?cloud')]" using clientUpdateD [OF u] .
  have a: "\<And>cl. emitsOnly storageWrite (andThen (cleanupOrphanPVCs c k cl sel) (\<lambda>u st. (Done cl, st)))"
    by (intro emitsOnly_andThen cleanupOrphanPVCs_emits emitsOnly_pure)
  have b: "emitsOnly storageWrite (andThen (cleanUpAllPVCs c cloud sel) (\<lambda>u. removeStorageFinalizer c k cloud))"
    by (intro emitsOnly_andThen cleanUpAllPVCs_emits removeStorageFinalizer_emits)
  from emitsOnlyD [OF a, of ?cloud' s1] obtain ys
    where ys: "snd (snd (andThen (cleanupOrphanPVCs c k ?cloud' sel) (\<lambda>u st. (Done ?cloud', st)) s1))
                 = snd s1 @ ys" "\<forall>cl \<in> set ys. storageWrite cl" by auto
  have added: "\<exists>new. snd (snd (case clientUpdate (solrClouds c) ObjSolrCloud ?cloud' s of
                             (Some err, s') \<Rightarrow> (Exit err, s')
                           | (None, s') \<Rightarrow>
                               andThen (cleanupOrphanPVCs c k ?cloud' sel)
                                 (\<lambda>u st. (Done ?cloud', st)) s')) = snd s @ new
              \<and> (\<forall>cl \<in> set new. storageWrite cl)"
    using u s1 ys by (cases e) auto
  show "\<exists>new. snd (snd (reconcileStorageFinalizer c k cloud sel s)) = snd s @ new
              \<and> (\<forall>cl \<in> set new. storageWrite cl)"
    using added emitsOnlyD [OF a, of cloud s] emitsOnlyD [OF b, of s]
      emitsOnlyD [OF removeStorageFinalizer_emits, of c k cloud s]
    by (simp add: reconcileStorageFinalizer_def Let_def)
qed

lemma reconcileStorage_emits: "emitsOnly storageWrite (reconcileStorage c cfg i sel)"
proof (rule emitsOnlyI)
  fix s
  from emitsOnlyD [OF reconcileStorageFinalizer_emits, of c "constants cfg" i sel s]
  show "\<exists>new. snd (snd (reconcileStorage c cfg i sel s)) = snd s @ new
              \<and> (\<forall>cl \<in> set new. storageWrite cl)"
    by (cases "reconcileStorageFinalizer c (constants cfg) i sel s";
        cases "fst (reconcileStorageFinalizer c (constants cfg) i sel s)")
       (auto simp add: reconcileStorage_def)
qed

lemma benign_not_status: "benign cl \<Longrightarrow> \<not> isStatusUpdate cl"
  by (simp add: benign_def)

lemma storageWrite_not_status: "storageWrite cl \<Longrightarrow> \<not> isStatusUpdate cl"
  by (cases cl) (auto simp add: storageWrite_def isPVCDelete_def isSolrCloudUpdate_def isStatusUpdate_def
        split: object.splits)

lemma reconcileMiddle_emits: "emitsOnly (\<lambda>cl. \<not> isStatusUpdate cl) (reconcileMiddle c cfg l)"
  unfolding reconcileMiddle_def Let_def
  by (intro emitsOnly_andThen emitsOnly_returning emitsOnly_pure
        emitsOnly_mono [OF reconcileStorage_emits storageWrite_not_status]
        emitsOnly_mono [OF managedUpdate_emits benign_not_status]
        emitsOnly_mono [OF reconcileIngress_emits benign_not_status]
        reconcileCloudStatus_emits)

lemma reconcileMiddle_quiet:
  assumes "pvcLabelSelectorOf l = []"
  shows "emitsOnly benign (reconcileMiddle c cfg l)"
proof -
  have "emitsOnly benign (reconcileStorage c cfg (instanceOf l) (pvcLabelSelectorOf l))"
    unfolding assms by (rule emitsOnlyI) (simp add: reconcileStorage_skipped)
  then show ?thesis
    unfolding reconcileMiddle_def Let_def
    by (intro emitsOnly_andThen emitsOnly_returning emitsOnly_pure managedUpdate_emits
          reconcileIngress_emits reconcileCloudStatus_emits)
qed

lemma writeBackStatus_calls:
  "callsOf (writeBackStatus c i st rq s) =
     snd s @ (if Status i \<noteq> st then [CallStatusUpdate (ObjSolrCloud (i\<lparr>Status := st\<rparr>))] else [])"
proof (cases "Status i = st")
  case True
  then show ?thesis by (simp add: writeBackStatus_def callsOf_def)
next
  case False
  obtain e s1 where u: "clientStatusUpdate c (i\<lparr>Status := st\<rparr>) s = (e, s1)"
    by (metis prod.exhaust)
  from clientStatusUpdate_calls [of c "i\<lparr>Status := st\<rparr>" s] u
  have "snd s1 = snd s @ [CallStatusUpdate (ObjSolrCloud (i\<lparr>Status := st\<rparr>))]" by simp
  with False u show ?thesis by (cases e) (simp_all add: writeBackStatus_def callsOf_def)
qed

subsection \<open>The whole pass\<close>

lemma andThen_emits_at:
  assumes f: "emitsOnly A f" and g: "\<And>a s1. f s = (Done a, s1) \<Longrightarrow> emitsOnly A (g a)"
  shows "\<exists>new. snd (snd (andThen f g s)) = snd s @ new \<and> (\<forall>cl \<in> set new. A cl)"
proof -
  obtain r s1 where fs: "f s = (r, s1)" by (metis prod.exhaust)
  from emitsOnlyD [OF f, of s] fs obtain xs
    where xs: "snd s1 = snd s @ xs" "\<forall>cl \<in> set xs. A cl" by auto
  show ?thesis
  proof (cases r)
    case (Done a)
    from emitsOnlyD [OF g [OF fs [unfolded Done]], of s1] obtain ys
      where ys: "snd (snd (g a s1)) = snd s1 @ ys" "\<forall>cl \<in> set ys. A cl" by auto
    have "andThen f g s = g a s1" using fs Done by (simp add: andThen_def)
    with xs ys show ?thesis by auto
  next
    case (Exit e)
    with fs xs show ?thesis by (simp add: andThen_def)
  next
    case Crash
    with fs xs show ?thesis by (simp add: andThen_def)
  qed
qed

lemma writeBackStatus_emits:
  "emitsOnly (\<lambda>cl. \<not> isPVCDelete cl \<and> \<not> isSolrCloudUpdate cl) (writeBackStatus c i st rq)"
proof (rule emitsOnlyI)
  fix s
  from writeBackStatus_calls [of c i st rq s]
  show "\<exists>new. snd (snd (writeBackStatus c i st rq s)) = snd s @ new
              \<and> (\<forall>cl \<in> set new. \<not> isPVCDelete cl \<and> \<not> isSolrCloudUpdate cl)"
    by (auto simp add: callsOf_def isPVCDelete_def isSolrCloudUpdate_def)
qed

lemma benign_no_storage: "benign cl \<Longrightarrow> \<not> isPVCDelete cl \<and> \<not> isSolrCloudUpdate cl"
  by (simp add: benign_def)

lemma pass_without_selector:
  assumes "discoveredSelector c cfg inst s = []"
  shows "\<exists>new. snd (snd (andThen (reconcileFront c cfg inst) (reconcileBack c cfg) s)) = snd s @ new
              \<and> (\<forall>cl \<in> set new. \<not> isPVCDelete cl \<and> \<not> isSolrCloudUpdate cl)"
proof (rule andThen_emits_at)
  show "emitsOnly (\<lambda>cl. \<not> isPVCDelete cl \<and> \<not> isSolrCloudUpdate cl) (reconcileFront c cfg inst)"
    by (rule emitsOnly_mono [OF reconcileFront_emits benign_no_storage])
next
  fix l s1
  assume "reconcileFront c cfg inst s = (Done l, s1)"
  with assms have "pvcLabelSelectorOf l = []" by (simp add: discoveredSelector_def)
  then have "emitsOnly benign (reconcileMiddle c cfg l)" by (rule reconcileMiddle_quiet)
  then show "emitsOnly (\<lambda>cl. \<not> isPVCDelete cl \<and> \<not> isSolrCloudUpdate cl) (reconcileBack c cfg l)"
    unfolding reconcileBack_def
    by (intro emitsOnly_andThen writeBackStatus_emits)
       (rule emitsOnly_mono [OF _ benign_no_storage])
qed

lemma pending_selector:
  "passSelector pendingZkClient demoConfig (''search'', ''demo'') ((), []) = []"
  by code_simp

lemma pending_defaults:
  "defaultsWrite pendingZkClient demoConfig (''search'', ''demo'') ((), []) = []"
  by code_simp

lemma pending_policy:
  "PersistentStorage (Spec pendingZkCloud) = Some VolumeReclaimPolicyDelete
   \<and> \<not> ContainsString (Finalizers pendingZkCloud) (SolrStorageFinalizer demoConstants)"
  by code_simp

text \<open>
  Claim C9. In a pass where no selector of the claims is discovered, so that
  \<^verbatim>\<open>pvcLabelSelector\<close> is empty at line 363, the storage finalizer is not reconciled: the
  pass deletes no persistent volume claim, and it does not update the SolrCloud object, so
  the finalizer is neither added nor removed. The only update of the SolrCloud object
  that such a pass can send is the one of lines 109 to 116 that stores the defaults,
  after which the pass returns at once.
\<close>

theorem no_selector_no_storage_action:
  assumes "passSelector c cfg req s0 = []"
  shows "\<exists>new. callsOf (Reconcile c cfg req s0) = snd s0 @ new
           \<and> (\<forall>cl \<in> set new. \<not> isPVCDelete cl
                 \<and> (isSolrCloudUpdate cl \<longrightarrow> cl \<in> set (defaultsWrite c cfg req s0)))"
proof -
  obtain r s where g: "clientGet (solrClouds c) (fst req) (snd req) s0 = (r, s)"
    by (metis prod.exhaust)
  have s: "snd s = snd s0" using clientGetD [OF g] .
  show ?thesis
  proof (cases r)
    case (Inl err)
    with g s show ?thesis by (simp add: Reconcile_def callsOf_def)
  next
    case (Inr fetched)
    obtain changed inst where d: "WithDefaults (methods cfg) (IngressBaseUrl cfg) fetched = (changed, inst)"
      by (metis prod.exhaust)
    show ?thesis
    proof (cases changed)
      case True
      obtain e s1 where u: "clientUpdate (solrClouds c) ObjSolrCloud inst s = (e, s1)"
        by (metis prod.exhaust)
      have "snd s1 = snd s @ [CallUpdate (ObjSolrCloud inst)]" using clientUpdateD [OF u] .
      with g s Inr d True u show ?thesis
        by (cases e)
           (simp_all add: Reconcile_def callsOf_def defaultsWrite_def isPVCDelete_def)
    next
      case False
      with assms g Inr d have "discoveredSelector c cfg inst s = []"
        by (simp add: passSelector_def)
      from pass_without_selector [OF this] g s Inr d False show ?thesis
        by (auto simp add: Reconcile_def callsOf_def)
    qed
  qed
qed

theorem no_selector_no_storage_action_witness:
  "passSelector pendingZkClient demoConfig (''search'', ''demo'') ((), []) = []
   \<and> PersistentStorage (Spec pendingZkCloud) = Some VolumeReclaimPolicyDelete
   \<and> \<not> ContainsString (Finalizers pendingZkCloud) (SolrStorageFinalizer demoConstants)
   \<and> filter isPVCDelete (callsOf (Reconcile pendingZkClient demoConfig (''search'', ''demo'') ((), []))) = []
   \<and> filter isSolrCloudUpdate (callsOf (Reconcile pendingZkClient demoConfig (''search'', ''demo'') ((), []))) = []"
  using no_selector_no_storage_action [OF pending_selector] pending_selector pending_defaults
    pending_policy
  by (auto simp add: filter_empty_conv)

subsection \<open>The error of the storage finalizer\<close>

lemma unreadable_get:
  "clientGet (solrClouds unreadableClaimsClient) ''search'' ''demo'' ((), []) = (Inr demoCloud, ((), []))"
  by code_simp

lemma demo_defaults:
  "WithDefaults (methods demoConfig) (IngressBaseUrl demoConfig) sc = (False, sc)"
  by (simp add: demoConfig_def demoMethods_def)

lemma unreadable_attempt:
  "map_option fst (storageAttempt unreadableClaimsClient demoConfig demoCloud ((), []))
     = Some (Exit (OtherError ''etcdserver: request timed out''))"
  by code_simp

text \<open>
  Claim C10. When the pass reaches the storage finalizer with a non-empty selector and
  \<^verbatim>\<open>reconcileStorageFinalizer\<close> returns an error, \<^verbatim>\<open>Reconcile\<close> returns no error and a
  result that asks for a requeue after ten seconds, whatever the error is.
\<close>

theorem storage_error_is_swallowed:
  assumes "clientGet (solrClouds c) (fst req) (snd req) s0 = (Inr fetched, s)"
    and "WithDefaults (methods cfg) (IngressBaseUrl cfg) fetched = (False, inst)"
    and "map_option fst (storageAttempt c cfg inst s) = Some (Exit err)"
  shows "passResult (fst (Reconcile c cfg req s0))
           = Some (\<lparr>Requeue = False, RequeueAfter = 10 * Second\<rparr>, None)"
proof -
  obtain r s1 where f: "reconcileFront c cfg inst s = (r, s1)" by (metis prod.exhaust)
  from assms(3) f obtain l where l: "r = Done l" and sel: "length (pvcLabelSelectorOf l) > 0"
    and e: "fst (reconcileStorageFinalizer c (constants cfg) (instanceOf l) (pvcLabelSelectorOf l) s1)
              = Exit err"
    by (cases r) (auto simp add: storageAttempt_def split: if_splits)
  obtain s2 where "reconcileStorageFinalizer c (constants cfg) (instanceOf l) (pvcLabelSelectorOf l) s1
                     = (Exit err, s2)"
    using e by (metis prod.collapse)
  with sel have "reconcileStorage c cfg (instanceOf l) (pvcLabelSelectorOf l) s1
                   = (Exit (\<lparr>Requeue = False, RequeueAfter = Second * 10\<rparr>, None), s2)"
    by (simp add: reconcileStorage_def)
  then have "reconcileBack c cfg l s1 = (Exit (\<lparr>Requeue = False, RequeueAfter = Second * 10\<rparr>, None), s2)"
    by (simp add: reconcileBack_def reconcileMiddle_def Let_def andThen_def)
  with f l have "andThen (reconcileFront c cfg inst) (reconcileBack c cfg) s
                   = (Exit (\<lparr>Requeue = False, RequeueAfter = Second * 10\<rparr>, None), s2)"
    by (simp add: andThen_def)
  with assms(1,2) show ?thesis
    by (simp add: Reconcile_def passResult_def mult.commute)
qed

theorem storage_error_is_swallowed_witness:
  "map_option fst (storageAttempt unreadableClaimsClient demoConfig demoCloud ((), []))
     = Some (Exit (OtherError ''etcdserver: request timed out''))
   \<and> passResult (fst (Reconcile unreadableClaimsClient demoConfig (''search'', ''demo'') ((), [])))
       = Some (\<lparr>Requeue = False, RequeueAfter = 10 * Second\<rparr>, None)"
  using storage_error_is_swallowed [where c = unreadableClaimsClient and cfg = demoConfig
      and req = "(''search'', ''demo'')" and ?s0.0 = "((), [])" and fetched = demoCloud
      and s = "((), [])" and inst = demoCloud and err = "OtherError ''etcdserver: request timed out''"]
    unreadable_get demo_defaults unreadable_attempt
  by simp

subsection \<open>The stored status through the pass\<close>

lemma reconcileTLSSecret_status:
  "reconcileTLSSecret c instance tls rq s = (Done r, s1) \<Longrightarrow> Status (fst r) = Status instance"
  by (cases "clientGet (secrets c) (Namespace instance) (selName (PKCS12Secret tls)) s";
      cases "fst (clientGet (secrets c) (Namespace instance) (selName (PKCS12Secret tls)) s)")
     (auto simp add: reconcileTLSSecret_def)

lemma reconcileTLS_status:
  assumes "reconcileTLS c cfg instance status0 rq s = (Done r, s1)"
  shows "Status (fst r) = Status instance"
proof (cases "SolrTLS (Spec instance)")
  case None
  with assms show ?thesis by (auto simp add: reconcileTLS_def)
next
  case (Some tls)
  with assms have "andThen (reconcileTLSCertificate c cfg instance tls rq)
            (\<lambda>u. andThen (reconcileTLSSecret c instance tls rq)
                    (\<lambda>r. andThen (reconcileUrlScheme c cfg (fst r) status0 rq)
                            (\<lambda>st s'. (Done (fst r, st, snd r), s')))) s = (Done r, s1)"
    by (simp add: reconcileTLS_def)
  then show ?thesis
    by (elim andThen_DoneE) (auto dest: reconcileTLSSecret_status)
qed

lemma reconcileFront_status:
  assumes "reconcileFront c cfg inst s = (Done l, s1)"
  shows "Status (instanceOf l) = Status inst"
  using assms unfolding reconcileFront_def Let_def
  by (elim andThen_DoneE) (auto dest: reconcileTLS_status)

lemma removeStorageFinalizer_status:
  "removeStorageFinalizer c k cloud s = (Done cloud', s1) \<Longrightarrow> Status cloud' = Status cloud"
  by (cases "clientUpdate (solrClouds c) ObjSolrCloud
               (cloud\<lparr>Finalizers := RemoveString (Finalizers cloud) (SolrStorageFinalizer k)\<rparr>) s";
      cases "fst (clientUpdate (solrClouds c) ObjSolrCloud
               (cloud\<lparr>Finalizers := RemoveString (Finalizers cloud) (SolrStorageFinalizer k)\<rparr>) s)")
     (auto simp add: removeStorageFinalizer_def Let_def)

lemma reconcileStorageFinalizer_status:
  assumes "reconcileStorageFinalizer c k cloud sel s = (Done cloud', s1)"
  shows "Status cloud' = Status cloud"
proof -
  let ?added = "cloud\<lparr>Finalizers := Finalizers cloud @ [SolrStorageFinalizer k]\<rparr>"
  have a: "(case clientUpdate (solrClouds c) ObjSolrCloud ?added s of
               (Some err, s') \<Rightarrow> (Exit err, s')
             | (None, s') \<Rightarrow> andThen (cleanupOrphanPVCs c k ?added sel) (\<lambda>u st. (Done ?added, st)) s')
             = (Done cloud', s1) \<Longrightarrow> Status cloud' = Status cloud"
    by (cases "clientUpdate (solrClouds c) ObjSolrCloud ?added s";
        cases "fst (clientUpdate (solrClouds c) ObjSolrCloud ?added s)")
       (auto elim!: andThen_DoneE)
  have b: "andThen (cleanupOrphanPVCs c k cloud sel) (\<lambda>u st. (Done cloud, st)) s = (Done cloud', s1)
             \<Longrightarrow> Status cloud' = Status cloud"
    by (auto elim!: andThen_DoneE)
  have d: "andThen (cleanUpAllPVCs c cloud sel) (\<lambda>u. removeStorageFinalizer c k cloud) s = (Done cloud', s1)
             \<Longrightarrow> Status cloud' = Status cloud"
    by (auto elim!: andThen_DoneE dest: removeStorageFinalizer_status)
  from assms show ?thesis
    unfolding reconcileStorageFinalizer_def Let_def
    by (auto split: if_splits dest: a b d removeStorageFinalizer_status)
qed

lemma reconcileStorage_status:
  assumes "reconcileStorage c cfg i sel s = (Done i', s1)"
  shows "Status i' = Status i"
proof (cases "length sel > 0")
  case True
  with assms show ?thesis
    by (cases "reconcileStorageFinalizer c (constants cfg) i sel s";
        cases "fst (reconcileStorageFinalizer c (constants cfg) i sel s)")
       (auto simp add: reconcileStorage_def dest: reconcileStorageFinalizer_status)
next
  case False
  with assms show ?thesis by (simp add: reconcileStorage_def)
qed

lemma reconcileMiddle_status:
  assumes "reconcileMiddle c cfg l s = (Done r, s1)"
  shows "Status (fst r) = Status (instanceOf l)"
  using assms unfolding reconcileMiddle_def Let_def
  by (elim andThen_DoneE) (auto dest: reconcileStorage_status)

lemma beforeWriteBack_status:
  assumes "beforeWriteBack c cfg inst s = (Done r, s1)"
  shows "Status (fst r) = Status inst"
proof -
  from assms obtain l s2 where f: "reconcileFront c cfg inst s = (Done l, s2)"
    and m: "reconcileMiddle c cfg l s2 = (Done r, s1)"
    unfolding beforeWriteBack_def by (elim andThen_DoneE)
  from reconcileMiddle_status [OF m] reconcileFront_status [OF f] show ?thesis by simp
qed

lemma beforeWriteBack_emits:
  "emitsOnly (\<lambda>cl. \<not> isStatusUpdate cl) (beforeWriteBack c cfg inst)"
  unfolding beforeWriteBack_def
  by (intro emitsOnly_andThen reconcileMiddle_emits
        emitsOnly_mono [OF reconcileFront_emits benign_not_status])

lemma pass_as_writeBack:
  "andThen (reconcileFront c cfg inst) (reconcileBack c cfg)
     = andThen (beforeWriteBack c cfg inst)
         (\<lambda>r. writeBackStatus c (fst r) (fst (snd r)) (snd (snd r)))"
proof -
  have "reconcileBack c cfg
          = (\<lambda>a. andThen (reconcileMiddle c cfg a)
                    (\<lambda>r. writeBackStatus c (fst r) (fst (snd r)) (snd (snd r))))"
    by (simp add: reconcileBack_def fun_eq_iff)
  then show ?thesis by (simp add: beforeWriteBack_def andThen_assoc)
qed

lemma steady_get:
  "clientGet (solrClouds steadyClient) ''search'' ''demo'' ((), []) = (Inr steadyCloud, ((), []))"
  by code_simp

lemma steady_status:
  "statusWrite steadyCloud (fst (beforeWriteBack steadyClient demoConfig steadyCloud ((), []))) = []"
  by code_simp

lemma rollout_get:
  "clientGet (solrClouds rolloutClient) ''search'' ''demo'' ((), []) = (Inr demoCloud, ((), []))"
  by code_simp

lemma rollout_status:
  "length (statusWrite demoCloud (fst (beforeWriteBack rolloutClient demoConfig demoCloud ((), [])))) = 1"
  by code_simp

text \<open>
  Claim C6. In a pass that has read the SolrCloud object and found its defaults set, the
  status updates that the pass sends are: exactly one, of the instance with the newly
  computed status, when the pass reaches line 433 and the status stored in the instance
  differs from the newly computed one; none when the two are equal, and none when the pass
  returns before line 433. \<^verbatim>\<open>reflect.DeepEqual\<close> on two values of the status type is the
  equality of the record. The status of the instance at line 433 is the one that was read
  at the start of the pass: the steps before change the specification and the finalizers
  of the instance only.
\<close>

theorem status_written_iff_changed:
  assumes "clientGet (solrClouds c) (fst req) (snd req) s0 = (Inr fetched, s)"
    and "WithDefaults (methods cfg) (IngressBaseUrl cfg) fetched = (False, inst)"
  shows "\<exists>new. callsOf (Reconcile c cfg req s0) = snd s0 @ new
           \<and> filter isStatusUpdate new = statusWrite inst (fst (beforeWriteBack c cfg inst s))"
proof -
  have s: "snd s = snd s0" using clientGetD [OF assms(1)] .
  obtain r s5 where b: "beforeWriteBack c cfg inst s = (r, s5)" by (metis prod.exhaust)
  from emitsOnlyD [OF beforeWriteBack_emits, of c cfg inst s] b obtain old
    where old: "snd s5 = snd s @ old" "\<forall>cl \<in> set old. \<not> isStatusUpdate cl" by auto
  then have quiet: "filter isStatusUpdate old = []" by (simp add: filter_empty_conv)
  have run: "Reconcile c cfg req s0
               = andThen (beforeWriteBack c cfg inst)
                   (\<lambda>r. writeBackStatus c (fst r) (fst (snd r)) (snd (snd r))) s"
    using assms by (simp add: Reconcile_def pass_as_writeBack)
  show ?thesis
  proof (cases r)
    case (Done x)
    from beforeWriteBack_status [OF b [unfolded Done]] have st: "Status (fst x) = Status inst" .
    have "Reconcile c cfg req s0 = writeBackStatus c (fst x) (fst (snd x)) (snd (snd x)) s5"
      using run b Done by (simp add: andThen_def)
    then have "callsOf (Reconcile c cfg req s0)
                 = snd s0 @ old @ (if Status inst \<noteq> fst (snd x)
                     then [CallStatusUpdate (ObjSolrCloud ((fst x)\<lparr>Status := fst (snd x)\<rparr>))] else [])"
      using writeBackStatus_calls [of c "fst x" "fst (snd x)" "snd (snd x)" s5] old s st by simp
    with quiet b Done show ?thesis
      by (simp add: statusWrite_def isStatusUpdate_def)
  next
    case (Exit e)
    with run b old s quiet show ?thesis by (simp add: andThen_def callsOf_def statusWrite_def)
  next
    case Crash
    with run b old s quiet show ?thesis by (simp add: andThen_def callsOf_def statusWrite_def)
  qed
qed

theorem status_written_iff_changed_witness:
  "filter isStatusUpdate (callsOf (Reconcile steadyClient demoConfig (''search'', ''demo'') ((), []))) = []
   \<and> length (filter isStatusUpdate
               (callsOf (Reconcile rolloutClient demoConfig (''search'', ''demo'') ((), [])))) = 1"
  using status_written_iff_changed [where c = steadyClient and cfg = demoConfig
      and req = "(''search'', ''demo'')" and ?s0.0 = "((), [])" and fetched = steadyCloud
      and s = "((), [])" and inst = steadyCloud]
    status_written_iff_changed [where c = rolloutClient and cfg = demoConfig
      and req = "(''search'', ''demo'')" and ?s0.0 = "((), [])" and fetched = demoCloud
      and s = "((), [])" and inst = demoCloud]
    steady_get rollout_get demo_defaults steady_status rollout_status
  by auto

end
